theory Spec2Isabelle
  imports Main "HOL-Library.Word"
begin

unbundle bit_operations_syntax

section \<open>The search job compiler (internal/search/job/job.go)\<close>

text \<open>
  The development embeds the query compiler of \<^verbatim>\<open>internal/search/job/job.go\<close>:
  \<^verbatim>\<open>ToSearchJob\<close>, \<^verbatim>\<open>toRepoOptions\<close>, \<^verbatim>\<open>jobMode\<close>, \<^verbatim>\<open>toFeatures\<close>, \<^verbatim>\<open>toAndJob\<close>,
  \<^verbatim>\<open>toOrJob\<close>, \<^verbatim>\<open>toPatternExpressionJob\<close>, \<^verbatim>\<open>ToEvaluateJob\<close> and \<^verbatim>\<open>FromExpandedPlan\<close>.
  The packages \<^verbatim>\<open>query\<close>, \<^verbatim>\<open>search\<close>, \<^verbatim>\<open>result\<close>, \<^verbatim>\<open>run\<close>, \<^verbatim>\<open>authz\<close>, \<^verbatim>\<open>zoektutil\<close> and the
  combinator constructors of package \<^verbatim>\<open>job\<close> are declared outside job.go. Their types
  are written out below as far as job.go reads them; their functions are taken as
  parameters, collected in the record \<open>env\<close>.
\<close>

subsection \<open>Go errors\<close>

text \<open>
  A Go \<^verbatim>\<open>error\<close> value carries its message; a failed type assertion panics.
  A function returning \<^verbatim>\<open>(T, error)\<close> returns \<open>error + T\<close>.
\<close>

datatype error = Error string | Panic string

definition bindE :: "error + 'a \<Rightarrow> ('a \<Rightarrow> error + 'b) \<Rightarrow> error + 'b" where
  "bindE m f = (case m of Inl e \<Rightarrow> Inl e | Inr x \<Rightarrow> f x)"

subsection \<open>Result types (package result)\<close>

text \<open>
  Modelled from the spec: \<^verbatim>\<open>result.Types\<close>, which is declared outside job.go. job.go
  uses it as a set of flags, one bit for each of the result types the spec lists (repo,
  symbol, file, path, diff, commit), combined with \<^verbatim>\<open>|\<close>, compared with \<^verbatim>\<open>0\<close>, and read
  through \<^verbatim>\<open>Has\<close> (some bit in common) and \<^verbatim>\<open>Without\<close> (bits cleared).
\<close>

type_synonym Types = "8 word"

definition TypeRepo :: Types where "TypeRepo = 1"
definition TypeSymbol :: Types where "TypeSymbol = 2"
definition TypeFile :: Types where "TypeFile = 4"
definition TypePath :: Types where "TypePath = 8"
definition TypeDiff :: Types where "TypeDiff = 16"
definition TypeCommit :: Types where "TypeCommit = 32"

definition Has :: "Types \<Rightarrow> Types \<Rightarrow> bool" where
  "Has r t = (r AND t \<noteq> 0)"

definition Without :: "Types \<Rightarrow> Types \<Rightarrow> Types" where
  "Without r t = r AND NOT t"

subsection \<open>The query tree (package query)\<close>

datatype operatorKind = Or | And | Concat

datatype YesNoOnly = Yes | No | Only

datatype RepoVisibility = Any | Private | Public

datatype SearchType = SearchTypeRegex | SearchTypeLiteral | SearchTypeStructural | SearchTypeLucky

type_synonym Annotation = nat

record Parameter =
  Field :: string
  Value :: string
  Negated :: bool
  Annotation :: Annotation

text \<open>
  Modelled from the spec: the query tree of package \<^verbatim>\<open>query\<close>, the spec's tagged-variant
  recursive type. A \<^verbatim>\<open>query.Node\<close> is a pattern, a parameter or an operator (and, or,
  concatenation) over operands, as the type switch of toPatternExpressionJob reads it;
  \<^verbatim>\<open>query.Q\<close> is a list of nodes.
\<close>

datatype Node =
    PatternNode string bool Annotation
  | ParameterNode Parameter
  | OperatorNode operatorKind "Node list" Annotation

type_synonym Q = "Node list"

text \<open>A \<^verbatim>\<open>query.Basic\<close>: the parameters and the pattern expression (\<^verbatim>\<open>nil\<close> is \<open>None\<close>).\<close>

record Basic =
  Parameters :: "Parameter list"
  Pattern :: "Node option"

type_synonym Plan = "Basic list"

text \<open>
  Modelled from the spec: the field names of package \<^verbatim>\<open>query\<close> (repo, context, type,
  default pattern, index, count, timeout, fork, archived, visibility, case,
  repo-has-file, repo-has-commit-after, pattern-type, select, and file and lang).
\<close>

definition FieldRepo :: string where "FieldRepo = ''repo''"
definition FieldContext :: string where "FieldContext = ''context''"
definition FieldType :: string where "FieldType = ''type''"
definition FieldDefault :: string where "FieldDefault = ''''"
definition FieldIndex :: string where "FieldIndex = ''index''"
definition FieldCount :: string where "FieldCount = ''count''"
definition FieldTimeout :: string where "FieldTimeout = ''timeout''"
definition FieldFork :: string where "FieldFork = ''fork''"
definition FieldArchived :: string where "FieldArchived = ''archived''"
definition FieldVisibility :: string where "FieldVisibility = ''visibility''"
definition FieldCase :: string where "FieldCase = ''case''"
definition FieldRepoHasFile :: string where "FieldRepoHasFile = ''repohasfile''"
definition FieldRepoHasCommitAfter :: string where "FieldRepoHasCommitAfter = ''repohascommitafter''"
definition FieldPatternType :: string where "FieldPatternType = ''patterntype''"
definition FieldSelect :: string where "FieldSelect = ''select''"
definition FieldFile :: string where "FieldFile = ''file''"
definition FieldLang :: string where "FieldLang = ''lang''"

text \<open>
  Modelled from the spec: the visitors of package \<^verbatim>\<open>query\<close>, declared outside job.go,
  as structural recursion over the query tree. \<^verbatim>\<open>VisitParameter(q, f)\<close> calls \<open>f\<close> on
  every parameter of the tree, in order; it is modelled as the list of the parameters
  visited. \<^verbatim>\<open>ForAll(nodes, fn)\<close> holds when \<open>fn\<close> holds of every node of the tree.
  \<^verbatim>\<open>ToNodes\<close> turns parameters into nodes, \<^verbatim>\<open>MapPattern\<close> replaces the pattern of a
  basic query.
\<close>

fun nodesOf :: "Node \<Rightarrow> Node list" where
  "nodesOf (PatternNode v n a) = [PatternNode v n a]"
| "nodesOf (ParameterNode p) = [ParameterNode p]"
| "nodesOf (OperatorNode k ops a) = OperatorNode k ops a # concat (map nodesOf ops)"

definition ForAll :: "Q \<Rightarrow> (Node \<Rightarrow> bool) \<Rightarrow> bool" where
  "ForAll nodes fn = list_all fn (concat (map nodesOf nodes))"

fun parametersOf :: "Node \<Rightarrow> Parameter list" where
  "parametersOf (PatternNode v n a) = []"
| "parametersOf (ParameterNode p) = [p]"
| "parametersOf (OperatorNode k ops a) = concat (map parametersOf ops)"

definition VisitParameter :: "Q \<Rightarrow> Parameter list" where
  "VisitParameter q = concat (map parametersOf q)"

definition ToNodes :: "Parameter list \<Rightarrow> Q" where
  "ToNodes ps = map ParameterNode ps"

definition MapPattern :: "Basic \<Rightarrow> Node \<Rightarrow> Basic" where
  "MapPattern b pattern = \<lparr>Parameters = Parameters b, Pattern = Some pattern\<rparr>"

subsection \<open>Search inputs and options (packages run, search, schema)\<close>

datatype Protocol = Streaming | Batch

datatype IndexedRequestType = TextRequest | SymbolRequest

datatype GlobalSearchMode = DefaultMode | ZoektGlobalSearch | SearcherOnly | SkipUnindexed

text \<open>\<^verbatim>\<open>schema.Settings\<close>: the two optional settings toRepoOptions reads.\<close>

record Settings =
  SearchIncludeForks :: "bool option"
  SearchIncludeArchived :: "bool option"

text \<open>
  \<^verbatim>\<open>run.SearchInputs\<close>, the fields job.go reads. \<^verbatim>\<open>Features\<close> is a flag set that may
  be \<^verbatim>\<open>nil\<close>. \<^verbatim>\<open>Args\<close> holds a pointer to it, so what \<^verbatim>\<open>ToSearchJob\<close> writes to
  \<^verbatim>\<open>PatternType\<close> is seen by every later read: the compiler functions below take the
  search inputs and return them with their result. The two client handles of \<^verbatim>\<open>Args\<close>
  (\<^verbatim>\<open>Zoekt\<close>, \<^verbatim>\<open>SearcherURLs\<close>) are copied into jobs unread and are left out, as are the
  git server client of the commit search and the search inputs the Alert job keeps.
\<close>

record SearchInputs =
  PatternType :: SearchType
  Protocol :: Protocol
  Features :: "(string \<times> bool) list option"
  UserSettings :: Settings
  OnSourcegraphDotCom :: bool

text \<open>\<^verbatim>\<open>search.Features\<close>\<close>

record SFeatures =
  ContentBasedLangFilters :: bool

text \<open>\<^verbatim>\<open>search.RepoOptions\<close>, the fields toRepoOptions and ToSearchJob set.\<close>

record RepoOptions =
  RepoFilters :: "string list"
  MinusRepoFilters :: "string list"
  Dependencies :: "string list"
  CaseSensitiveRepoFilters :: bool
  SearchContextSpec :: string
  OnlyForks :: bool
  NoForks :: bool
  OnlyArchived :: bool
  NoArchived :: bool
  Visibility :: RepoVisibility
  CommitAfter :: string
  Query :: Q

text \<open>\<^verbatim>\<open>search.TextPatternInfo\<close>, the fields ToSearchJob reads or writes.\<close>

record TextPatternInfo =
  tpPattern :: string
  IsStructuralPat :: bool
  FileMatchLimit :: int
  Select :: "string list"
  Index :: YesNoOnly

subsection \<open>Jobs\<close>

text \<open>
  The leaf jobs ToSearchJob builds, with the arguments it gives them, the repo pager,
  and the combinators. \<open>'z\<close> is the query type of the Zoekt library.

  Modelled from the spec: the constructors \<^verbatim>\<open>NewParallelJob\<close>, \<^verbatim>\<open>NewPriorityJob\<close>,
  \<^verbatim>\<open>NewAndJob\<close>, \<^verbatim>\<open>NewOrJob\<close>, \<^verbatim>\<open>NewLimitJob\<close>, \<^verbatim>\<open>NewTimeoutJob\<close>, \<^verbatim>\<open>NewSelectJob\<close>,
  \<^verbatim>\<open>NewFilterJob\<close>, \<^verbatim>\<open>NewAlertJob\<close> and \<^verbatim>\<open>NewNoopJob\<close> are declared outside job.go, in
  package \<^verbatim>\<open>job\<close>; after the spec's data model (Parallel{children}, And{children},
  Or{children}, Priority{required, optional}, Limit{n, child}, Timeout{duration, child},
  Select{projection, child}, Filter{predicate, child}, Alert{child}, Noop) each builds
  the node of its name over its arguments.
\<close>

datatype 'z Job =
    GlobalSearch 'z 'z bool IndexedRequestType int "string list" RepoOptions
      \<comment> \<open>zoektQuery, defaultScope, includePrivate; Typ, FileMatchLimit, Select; RepoOptions\<close>
  | RepoUniverseSymbolSearch 'z 'z bool IndexedRequestType int "string list" TextPatternInfo int RepoOptions
      \<comment> \<open>as GlobalSearch, then PatternInfo, Limit, RepoOptions\<close>
  | ZoektRepoSubsetSearch 'z IndexedRequestType int "string list"
      \<comment> \<open>Query, Typ, FileMatchLimit, Select\<close>
  | Searcher TextPatternInfo bool bool
      \<comment> \<open>PatternInfo, Indexed, UseFullDeadline\<close>
  | ZoektSymbolSearch 'z int "string list"
      \<comment> \<open>Query, FileMatchLimit, Select\<close>
  | SymbolSearcher TextPatternInfo int
      \<comment> \<open>PatternInfo, Limit\<close>
  | repoPagerJob "'z Job" RepoOptions YesNoOnly bool
      \<comment> \<open>child, repoOptions, useIndex, containsRefGlobs\<close>
  | CommitSearch Q RepoOptions bool bool int bool
      \<comment> \<open>the query and Diff (Query is QueryToGitQuery of both), RepoOpts, Diff,
          HasTimeFilter, Limit, IncludeModifiedFiles\<close>
  | StructuralSearch 'z IndexedRequestType int "string list" TextPatternInfo bool bool YesNoOnly bool RepoOptions
      \<comment> \<open>ZoektArgs (Query, Typ, FileMatchLimit, Select); SearcherArgs (PatternInfo,
          UseFullDeadline); NotSearcherOnly, UseIndex, ContainsRefGlobs, RepoOpts\<close>
  | RepoSearch RepoOptions SFeatures bool Q TextPatternInfo GlobalSearchMode
      \<comment> \<open>RepoOptions, Features, UseFullDeadline, Query, PatternInfo, Mode\<close>
  | ComputeExcludedRepos RepoOptions
  | ParallelJob "'z Job list"
  | PriorityJob "'z Job" "'z Job"
  | AndJob "'z Job list"
  | OrJob "'z Job list"
  | LimitJob int "'z Job"
  | TimeoutJob int "'z Job"
  | SelectJob "string list" "'z Job"
  | FilterJob "'z Job"
  | AlertJob "'z Job"
  | NoopJob

definition NewParallelJob :: "'z Job list \<Rightarrow> 'z Job" where
  "NewParallelJob children = ParallelJob children"

definition NewPriorityJob :: "'z Job \<Rightarrow> 'z Job \<Rightarrow> 'z Job" where
  "NewPriorityJob required optional = PriorityJob required optional"

definition NewAndJob :: "'z Job list \<Rightarrow> 'z Job" where
  "NewAndJob children = AndJob children"

definition NewOrJob :: "'z Job list \<Rightarrow> 'z Job" where
  "NewOrJob children = OrJob children"

definition NewLimitJob :: "int \<Rightarrow> 'z Job \<Rightarrow> 'z Job" where
  "NewLimitJob limit child = LimitJob limit child"

definition NewTimeoutJob :: "int \<Rightarrow> 'z Job \<Rightarrow> 'z Job" where
  "NewTimeoutJob timeout child = TimeoutJob timeout child"

definition NewSelectJob :: "string list \<Rightarrow> 'z Job \<Rightarrow> 'z Job" where
  "NewSelectJob path child = SelectJob path child"

definition NewFilterJob :: "'z Job \<Rightarrow> 'z Job" where
  "NewFilterJob child = FilterJob child"

definition NewAlertJob :: "'z Job \<Rightarrow> 'z Job" where
  "NewAlertJob child = AlertJob child"

definition NewNoopJob :: "'z Job" where
  "NewNoopJob = NoopJob"

subsection \<open>The functions job.go calls in other packages\<close>

text \<open>
  Every function below is declared outside job.go and is a parameter of the
  compiler: the methods of \<^verbatim>\<open>query.Q\<close> and \<^verbatim>\<open>query.Basic\<close>, the translations of package
  \<^verbatim>\<open>search\<close> and \<^verbatim>\<open>zoektutil\<close>, \<^verbatim>\<open>regexp.Compile\<close> (as the test whether it succeeds), and
  \<^verbatim>\<open>authz.SubRepoEnabled(authz.DefaultSubRepoPermsChecker)\<close>, one value for the instance.
\<close>

record 'z env =
  MaxResults :: "Q \<Rightarrow> int \<Rightarrow> int"
  DefaultLimit :: "SearchInputs \<Rightarrow> int"
  ToBasicQuery :: "Q \<Rightarrow> error + Basic"
  StringValues :: "Q \<Rightarrow> string \<Rightarrow> string list"
  StringValue :: "Q \<Rightarrow> string \<Rightarrow> string"
  ComputeResultTypes :: "string list \<Rightarrow> string \<Rightarrow> SearchType \<Rightarrow> Types"
  ToTextPatternInfo :: "Basic \<Rightarrow> Types \<Rightarrow> Protocol \<Rightarrow> TextPatternInfo"
  QTimeout :: "Q \<Rightarrow> int option"
  QCount :: "Q \<Rightarrow> int option"
  Repositories :: "Q \<Rightarrow> string list \<times> string list"
  QDependencies :: "Q \<Rightarrow> string list"
  ExactlyOneRepo :: "string list \<Rightarrow> bool"
  Fork :: "Q \<Rightarrow> YesNoOnly option"
  Archived :: "Q \<Rightarrow> YesNoOnly option"
  ParseVisibility :: "string \<Rightarrow> RepoVisibility"
  IsCaseSensitive :: "Q \<Rightarrow> bool"
  ContainsRefGlobs :: "Q \<Rightarrow> bool"
  ToParseTree :: "Basic \<Rightarrow> Q"
  PatternString :: "Basic \<Rightarrow> string"
  BIndex :: "Basic \<Rightarrow> YesNoOnly"
  Exists :: "Basic \<Rightarrow> string \<Rightarrow> bool"
  IsGlobalSearchContextSpec :: "string \<Rightarrow> bool"
  DefaultGlobalQueryScope :: "RepoOptions \<Rightarrow> error + 'z"
  QueryToZoektQuery :: "TextPatternInfo \<Rightarrow> SFeatures \<Rightarrow> IndexedRequestType \<Rightarrow> error + 'z"
  regexpCompiles :: "string \<Rightarrow> bool"
  SubRepoEnabled :: bool
  TimeoutDuration :: "Basic \<Rightarrow> int"
  SelectPathFromString :: "string \<Rightarrow> string list"

subsection \<open>toFeatures, toRepoOptions, jobMode\<close>

text \<open>\<^verbatim>\<open>flags.GetBoolOr\<close> on a flag set; a \<^verbatim>\<open>nil\<close> set is replaced by the empty one.\<close>

definition GetBoolOr :: "(string \<times> bool) list \<Rightarrow> string \<Rightarrow> bool \<Rightarrow> bool" where
  "GetBoolOr flags name dflt = (case map_of flags name of Some v \<Rightarrow> v | None \<Rightarrow> dflt)"

definition toFeatures :: "(string \<times> bool) list option \<Rightarrow> SFeatures" where
  "toFeatures flags =
     (let flags' = (case flags of None \<Rightarrow> [] | Some fs \<Rightarrow> fs)
      in \<lparr>ContentBasedLangFilters = GetBoolOr flags' ''search-content-based-lang-detection'' False\<rparr>)"

definition toRepoOptions :: "'z env \<Rightarrow> Q \<Rightarrow> Settings \<Rightarrow> RepoOptions" where
  "toRepoOptions env q userSettings =
     (let (repoFilters, minusRepoFilters) = Repositories env q;
          settingForks = (case SearchIncludeForks userSettings of Some v \<Rightarrow> v | None \<Rightarrow> False);
          settingArchived = (case SearchIncludeArchived userSettings of Some v \<Rightarrow> v | None \<Rightarrow> False);
          fork0 = (if ExactlyOneRepo env repoFilters \<or> settingForks then Yes else No);
          fork = (case Fork env q of Some setFork \<Rightarrow> setFork | None \<Rightarrow> fork0);
          archived0 = (if ExactlyOneRepo env repoFilters \<or> settingArchived then Yes else No);
          archived = (case Archived env q of Some setArchived \<Rightarrow> setArchived | None \<Rightarrow> archived0);
          visibilityStr = StringValue env q FieldVisibility;
          visibility = ParseVisibility env visibilityStr;
          commitAfter = StringValue env q FieldRepoHasCommitAfter;
          searchContextSpec = StringValue env q FieldContext
      in \<lparr>RepoFilters = repoFilters,
          MinusRepoFilters = minusRepoFilters,
          Dependencies = QDependencies env q,
          CaseSensitiveRepoFilters = False,
          SearchContextSpec = searchContextSpec,
          OnlyForks = (fork = Only),
          NoForks = (fork = No),
          OnlyArchived = (archived = Only),
          NoArchived = (archived = No),
          Visibility = visibility,
          CommitAfter = commitAfter,
          Query = q\<rparr>)"

text \<open>The predicate jobMode gives to \<^verbatim>\<open>query.ForAll\<close>.\<close>

definition globalNode :: "'z env \<Rightarrow> Node \<Rightarrow> bool" where
  "globalNode env node =
     (case node of
        ParameterNode n \<Rightarrow>
          (if Field n = FieldContext then IsGlobalSearchContextSpec env (Value n)
           else if Field n = FieldRepo then Negated n
           else if Field n = FieldRepoHasFile then False
           else True)
      | _ \<Rightarrow> True)"

definition isGlobalSearch :: "'z env \<Rightarrow> Basic \<Rightarrow> SearchType \<Rightarrow> bool" where
  "isGlobalSearch env b st =
     (if st = SearchTypeStructural then False
      else ForAll (ToParseTree env b) (globalNode env))"

text \<open>jobMode returns (repoUniverseSearch, skipRepoSubsetSearch, onlyRunSearcher).\<close>

definition jobMode :: "'z env \<Rightarrow> Basic \<Rightarrow> Types \<Rightarrow> SearchType \<Rightarrow> bool \<Rightarrow> bool \<times> bool \<times> bool" where
  "jobMode env b resultTypes st onSourcegraphDotCom =
     (let hasGlobalSearchResultType = Has resultTypes (TypeFile OR TypePath OR TypeSymbol);
          isIndexedSearch = (BIndex env b \<noteq> No);
          noPattern = (PatternString env b = []);
          noFile = (\<not> Exists env b FieldFile);
          noLang = (\<not> Exists env b FieldLang);
          isEmpty = (noPattern \<and> noFile \<and> noLang);
          repoUniverseSearch = (isGlobalSearch env b st \<and> isIndexedSearch \<and> hasGlobalSearchResultType \<and> \<not> isEmpty);
          skipRepoSubsetSearch = (isEmpty \<or> (repoUniverseSearch \<and> onSourcegraphDotCom));
          onlyRunSearcher = (repoUniverseSearch \<and> \<not> onSourcegraphDotCom)
      in (repoUniverseSearch, skipRepoSubsetSearch, onlyRunSearcher))"

subsection \<open>ToSearchJob\<close>

text \<open>
  \<^verbatim>\<open>requiredJobs\<close> and \<^verbatim>\<open>optionalJobs\<close>, and the closure \<^verbatim>\<open>addJob\<close> that appends to
  one of them.
\<close>

type_synonym 'z buckets = "'z Job list \<times> 'z Job list"

definition addJob :: "bool \<Rightarrow> 'z Job \<Rightarrow> 'z buckets \<Rightarrow> 'z buckets" where
  "addJob required job bk =
     (case bk of (requiredJobs, optionalJobs) \<Rightarrow>
        if required then (requiredJobs @ [job], optionalJobs)
        else (requiredJobs, optionalJobs @ [job]))"

text \<open>Lines 90 to 152: the two index-universe jobs, under \<^verbatim>\<open>repoUniverseSearch\<close>.\<close>

definition universeJobs ::
  "'z env \<Rightarrow> Types \<Rightarrow> TextPatternInfo \<Rightarrow> SFeatures \<Rightarrow> RepoOptions \<Rightarrow> int \<Rightarrow> bool \<Rightarrow>
   'z buckets \<Rightarrow> error + 'z buckets" where
  "universeJobs env resultTypes patternInfo features repoOptions maxResults repoUniverseSearch bk =
     (if repoUniverseSearch then
        bindE (DefaultGlobalQueryScope env repoOptions) (\<lambda>defaultScope.
          let includePrivate = (Visibility repoOptions = Private \<or> Visibility repoOptions = Any) in
          bindE
            (if Has resultTypes (TypeFile OR TypePath) then
               bindE (QueryToZoektQuery env patternInfo features TextRequest) (\<lambda>zoektQuery.
                 Inr (addJob True
                   (GlobalSearch zoektQuery defaultScope includePrivate TextRequest
                      (FileMatchLimit patternInfo) (Select patternInfo) repoOptions) bk))
             else Inr bk)
            (\<lambda>bk1.
               if Has resultTypes TypeSymbol then
                 bindE (QueryToZoektQuery env patternInfo features SymbolRequest) (\<lambda>zoektQuery.
                   Inr (addJob True
                     (RepoUniverseSymbolSearch zoektQuery defaultScope includePrivate SymbolRequest
                        (FileMatchLimit patternInfo) (Select patternInfo) patternInfo maxResults
                        repoOptions) bk1))
               else Inr bk1))
      else Inr bk)"

text \<open>Lines 154 to 185: text search over the resolved repositories.\<close>

definition textJobs ::
  "'z env \<Rightarrow> Q \<Rightarrow> Types \<Rightarrow> TextPatternInfo \<Rightarrow> SFeatures \<Rightarrow> RepoOptions \<Rightarrow> bool \<Rightarrow> bool \<Rightarrow> bool \<Rightarrow>
   'z buckets \<Rightarrow> error + 'z buckets" where
  "textJobs env q resultTypes patternInfo features repoOptions useFullDeadline
       skipRepoSubsetSearch onlyRunSearcher bk =
     (if Has resultTypes (TypeFile OR TypePath) \<and> \<not> skipRepoSubsetSearch then
        bindE
          (if \<not> onlyRunSearcher then
             bindE (QueryToZoektQuery env patternInfo features TextRequest) (\<lambda>zoektQuery.
               Inr [ZoektRepoSubsetSearch zoektQuery TextRequest
                      (FileMatchLimit patternInfo) (Select patternInfo)])
           else Inr [])
          (\<lambda>textSearchJobs.
             Inr (addJob True
               (repoPagerJob
                  (NewParallelJob (textSearchJobs @ [Searcher patternInfo False useFullDeadline]))
                  repoOptions (Index patternInfo) (ContainsRefGlobs env q)) bk))
      else Inr bk)"

text \<open>Lines 187 to 217: symbol search over the resolved repositories.\<close>

definition symbolJobs ::
  "'z env \<Rightarrow> Q \<Rightarrow> Types \<Rightarrow> TextPatternInfo \<Rightarrow> SFeatures \<Rightarrow> RepoOptions \<Rightarrow> int \<Rightarrow> bool \<Rightarrow> bool \<Rightarrow> bool \<Rightarrow>
   'z buckets \<Rightarrow> error + 'z buckets" where
  "symbolJobs env q resultTypes patternInfo features repoOptions maxResults useFullDeadline
       skipRepoSubsetSearch onlyRunSearcher bk =
     (if Has resultTypes TypeSymbol \<and> tpPattern patternInfo \<noteq> [] \<and> \<not> skipRepoSubsetSearch then
        bindE
          (if \<not> onlyRunSearcher then
             bindE (QueryToZoektQuery env patternInfo features SymbolRequest) (\<lambda>zoektQuery.
               Inr [ZoektSymbolSearch zoektQuery (FileMatchLimit patternInfo) (Select patternInfo)])
           else Inr [])
          (\<lambda>symbolSearchJobs.
             let required = (useFullDeadline \<or> Without resultTypes TypeSymbol = 0) in
             Inr (addJob required
               (repoPagerJob
                  (NewParallelJob (symbolSearchJobs @ [SymbolSearcher patternInfo maxResults]))
                  repoOptions (Index patternInfo) (ContainsRefGlobs env q)) bk))
      else Inr bk)"

text \<open>Lines 219 to 238: commit and diff search.\<close>

definition commitJobs ::
  "'z env \<Rightarrow> Q \<Rightarrow> Basic \<Rightarrow> Types \<Rightarrow> TextPatternInfo \<Rightarrow> RepoOptions \<Rightarrow> bool \<Rightarrow>
   'z buckets \<Rightarrow> 'z buckets" where
  "commitJobs env q b resultTypes patternInfo repoOptions useFullDeadline bk =
     (if Has resultTypes TypeCommit \<or> Has resultTypes TypeDiff then
        let diff = Has resultTypes TypeDiff;
            required =
              (if useFullDeadline then True
               else if diff then Without resultTypes TypeDiff = 0
               else Without resultTypes TypeCommit = 0)
        in addJob required
             (CommitSearch q repoOptions diff
                (Exists env b ''after'' \<or> Exists env b ''before'')
                (FileMatchLimit patternInfo)
                (SubRepoEnabled env)) bk
      else bk)"

text \<open>
  Lines 240 to 269: structural search, under the pattern type of the search inputs as
  they are after line 63.
\<close>

definition structuralJobs ::
  "'z env \<Rightarrow> Q \<Rightarrow> SearchType \<Rightarrow> TextPatternInfo \<Rightarrow> SFeatures \<Rightarrow> RepoOptions \<Rightarrow> bool \<Rightarrow> bool \<Rightarrow>
   'z buckets \<Rightarrow> error + 'z buckets" where
  "structuralJobs env q patternType patternInfo features repoOptions useFullDeadline
       onlyRunSearcher bk =
     (if patternType = SearchTypeStructural \<and> tpPattern patternInfo \<noteq> [] then
        bindE (QueryToZoektQuery env patternInfo features TextRequest) (\<lambda>zoektQuery.
          Inr (addJob True
            (StructuralSearch zoektQuery TextRequest (FileMatchLimit patternInfo) (Select patternInfo)
               patternInfo useFullDeadline
               (\<not> onlyRunSearcher) (Index patternInfo) (ContainsRefGlobs env q) repoOptions) bk))
      else Inr bk)"

text \<open>
  Lines 271 to 366: repository search. \<^verbatim>\<open>valid\<close> starts from \<^verbatim>\<open>exists = true\<close> and
  clears it at every visited parameter whose field is not a key of the allow-list.
\<close>

definition fieldAllowlist :: "string list" where
  "fieldAllowlist =
     [FieldRepo, FieldContext, FieldType, FieldDefault, FieldIndex, FieldCount, FieldTimeout,
      FieldFork, FieldArchived, FieldVisibility, FieldCase, FieldRepoHasFile,
      FieldRepoHasCommitAfter, FieldPatternType, FieldSelect]"

definition valid :: "Q \<Rightarrow> bool" where
  "valid q =
     fold (\<lambda>p exists. if Field p \<notin> set fieldAllowlist then False else exists)
       (VisitParameter q) True"

text \<open>
  \<^verbatim>\<open>strings.SplitN(pattern, "@", 2)\<close>: one piece without an \<^verbatim>\<open>@\<close>, else the text before
  the first \<^verbatim>\<open>@\<close> and the text after it.
\<close>

definition SplitN2 :: "string \<Rightarrow> string list" where
  "SplitN2 s =
     (if CHR ''@'' \<in> set s
      then [takeWhile (\<lambda>c. c \<noteq> CHR ''@'') s, tl (dropWhile (\<lambda>c. c \<noteq> CHR ''@'') s)]
      else [s])"

text \<open>
  \<^verbatim>\<open>addPatternAsRepoFilter\<close> returns \<^verbatim>\<open>(opts, true)\<close> or \<^verbatim>\<open>(search.RepoOptions{}, false)\<close>;
  the second, whose options the caller never reads, is \<open>None\<close>.
\<close>

definition addPatternAsRepoFilter :: "'z env \<Rightarrow> Q \<Rightarrow> string \<Rightarrow> RepoOptions \<Rightarrow> RepoOptions option" where
  "addPatternAsRepoFilter env q pattern opts =
     (if pattern = [] then Some opts
      else
        let opts1 = opts\<lparr>CaseSensitiveRepoFilters := IsCaseSensitive env q\<rparr>;
            patternPrefix = SplitN2 pattern
        in if length patternPrefix = 1 then Some (opts1\<lparr>RepoFilters := RepoFilters opts1 @ [pattern]\<rparr>)
           else if hd patternPrefix \<noteq> [] then
             (if \<not> regexpCompiles env (hd patternPrefix) then None
              else Some (opts1\<lparr>RepoFilters := RepoFilters opts1 @ [hd patternPrefix]\<rparr>))
           else None)"

definition repoJobs ::
  "'z env \<Rightarrow> Q \<Rightarrow> Types \<Rightarrow> TextPatternInfo \<Rightarrow> SFeatures \<Rightarrow> RepoOptions \<Rightarrow> bool \<Rightarrow> bool \<Rightarrow> bool \<Rightarrow>
   'z buckets \<Rightarrow> 'z buckets" where
  "repoJobs env q resultTypes patternInfo features repoOptions useFullDeadline
       repoUniverseSearch skipRepoSubsetSearch bk =
     (if Has resultTypes TypeRepo then
        if valid q then
          (case addPatternAsRepoFilter env q (tpPattern patternInfo) repoOptions of
             Some repoOptions' \<Rightarrow>
               let mode0 = (if repoUniverseSearch then ZoektGlobalSearch else DefaultMode);
                   mode = (if skipRepoSubsetSearch then SkipUnindexed else mode0)
               in addJob True
                    (RepoSearch repoOptions' features useFullDeadline q patternInfo mode) bk
           | None \<Rightarrow> bk)
        else bk
      else bk)"

text \<open>
  Lines 59 to 65: the fallback on an empty pattern, which writes
  \<^verbatim>\<open>jargs.SearchInputs.PatternType\<close> and \<^verbatim>\<open>patternInfo.IsStructuralPat\<close>.
\<close>

definition patternFallback ::
  "SearchInputs \<Rightarrow> TextPatternInfo \<Rightarrow> SearchInputs \<times> TextPatternInfo" where
  "patternFallback inputs patternInfo =
     (if tpPattern patternInfo = []
      then (inputs\<lparr>PatternType := SearchTypeLiteral\<rparr>, patternInfo\<lparr>IsStructuralPat := False\<rparr>)
      else (inputs, patternInfo))"

text \<open>Lines 67 to 371: all the jobs, in the order of the source, from empty buckets.\<close>

definition searchJobs ::
  "'z env \<Rightarrow> SearchInputs \<Rightarrow> Q \<Rightarrow> Basic \<Rightarrow> Types \<Rightarrow> TextPatternInfo \<Rightarrow> int \<Rightarrow> error + 'z buckets" where
  "searchJobs env inputs q b resultTypes patternInfo maxResults =
     (let useFullDeadline = (QTimeout env q \<noteq> None \<or> QCount env q \<noteq> None \<or> Protocol inputs = Streaming);
          features = toFeatures (Features inputs);
          repoOptions = toRepoOptions env q (UserSettings inputs);
          (repoUniverseSearch, skipRepoSubsetSearch, onlyRunSearcher) =
             jobMode env b resultTypes (PatternType inputs) (OnSourcegraphDotCom inputs)
      in
        bindE (universeJobs env resultTypes patternInfo features repoOptions maxResults
                 repoUniverseSearch ([], [])) (\<lambda>bk1.
        bindE (textJobs env q resultTypes patternInfo features repoOptions useFullDeadline
                 skipRepoSubsetSearch onlyRunSearcher bk1) (\<lambda>bk2.
        bindE (symbolJobs env q resultTypes patternInfo features repoOptions maxResults
                 useFullDeadline skipRepoSubsetSearch onlyRunSearcher bk2) (\<lambda>bk3.
        bindE (structuralJobs env q (PatternType inputs) patternInfo features repoOptions
                 useFullDeadline onlyRunSearcher
                 (commitJobs env q b resultTypes patternInfo repoOptions useFullDeadline bk3)) (\<lambda>bk5.
        Inr (addJob True (ComputeExcludedRepos repoOptions)
               (repoJobs env q resultTypes patternInfo features repoOptions useFullDeadline
                  repoUniverseSearch skipRepoSubsetSearch bk5)))))))"

text \<open>Lines 373 to 383: the two buckets under Parallel and Priority, and the filter.\<close>

definition finishJob :: "'z env \<Rightarrow> 'z buckets \<Rightarrow> 'z Job" where
  "finishJob env bk =
     (case bk of (requiredJobs, optionalJobs) \<Rightarrow>
        let job = NewPriorityJob (NewParallelJob requiredJobs) (NewParallelJob optionalJobs)
        in if SubRepoEnabled env then NewFilterJob job else job)"

text \<open>
  \<^verbatim>\<open>ToSearchJob\<close> returns the job or the error, and the search inputs as it leaves them.
\<close>

definition ToSearchJob ::
  "'z env \<Rightarrow> SearchInputs \<Rightarrow> Q \<Rightarrow> (error + 'z Job) \<times> SearchInputs" where
  "ToSearchJob env jargs q =
     (let maxResults = MaxResults env q (DefaultLimit env jargs) in
      case ToBasicQuery env q of
        Inl err \<Rightarrow> (Inl err, jargs)
      | Inr b \<Rightarrow>
          let types = StringValues env q FieldType;
              resultTypes = ComputeResultTypes env types (PatternString env b) (PatternType jargs);
              (jargs', patternInfo) =
                 patternFallback jargs (ToTextPatternInfo env b resultTypes (Protocol jargs))
          in (case searchJobs env jargs' q b resultTypes patternInfo maxResults of
                Inl err \<Rightarrow> (Inl err, jargs')
              | Inr bk \<Rightarrow> (Inr (finishJob env bk), jargs')))"

subsection \<open>toAndJob, toOrJob, toPatternExpressionJob\<close>

text \<open>
  The three functions call each other along the operands of the pattern. The recursion
  is written on the pattern node, with the parameters of the basic query beside it
  (\<^verbatim>\<open>MapPattern\<close> keeps them); \<open>andOperands\<close> and \<open>orOperands\<close> are the two loops over
  \<^verbatim>\<open>queryOperands\<close>, which stop at the first error.
\<close>

fun toPatternExpressionNode ::
      "'z env \<Rightarrow> SearchInputs \<Rightarrow> Parameter list \<Rightarrow> Node \<Rightarrow> (error + 'z Job) \<times> SearchInputs"
  and andOperands ::
      "'z env \<Rightarrow> SearchInputs \<Rightarrow> Parameter list \<Rightarrow> Node list \<Rightarrow> (error + 'z Job list) \<times> SearchInputs"
  and orOperands ::
      "'z env \<Rightarrow> SearchInputs \<Rightarrow> Parameter list \<Rightarrow> Node list \<Rightarrow> (error + 'z Job list) \<times> SearchInputs"
where
  "toPatternExpressionNode env args ps (OperatorNode kind operands ann) =
     (if operands = [] then (Inr NewNoopJob, args)
      else (case kind of
              And \<Rightarrow>
                (case andOperands env args ps operands of
                   (Inl err, args') \<Rightarrow> (Inl err, args')
                 | (Inr js, args') \<Rightarrow> (Inr (NewAndJob js), args'))
            | Or \<Rightarrow>
                (case orOperands env args ps operands of
                   (Inl err, args') \<Rightarrow> (Inl err, args')
                 | (Inr js, args') \<Rightarrow> (Inr (NewOrJob js), args'))
            | Concat \<Rightarrow>
                ToSearchJob env args
                  (ToParseTree env \<lparr>Parameters = ps, Pattern = Some (OperatorNode kind operands ann)\<rparr>)))"
| "toPatternExpressionNode env args ps (PatternNode v n ann) =
     ToSearchJob env args (ToParseTree env \<lparr>Parameters = ps, Pattern = Some (PatternNode v n ann)\<rparr>)"
| "toPatternExpressionNode env args ps (ParameterNode p) = (Inr NewNoopJob, args)"
| "andOperands env args ps [] = (Inr [], args)"
| "andOperands env args ps (queryOperand # rest) =
     (case toPatternExpressionNode env args ps queryOperand of
        (Inl err, args') \<Rightarrow> (Inl err, args')
      | (Inr operand, args') \<Rightarrow>
          (case andOperands env args' ps rest of
             (Inl err, args'') \<Rightarrow> (Inl err, args'')
           | (Inr operands, args'') \<Rightarrow> (Inr (NewLimitJob 40000 operand # operands), args'')))"
| "orOperands env args ps [] = (Inr [], args)"
| "orOperands env args ps (term # rest) =
     (case toPatternExpressionNode env args ps term of
        (Inl err, args') \<Rightarrow> (Inl err, args')
      | (Inr operand, args') \<Rightarrow>
          (case orOperands env args' ps rest of
             (Inl err, args'') \<Rightarrow> (Inl err, args'')
           | (Inr operands, args'') \<Rightarrow> (Inr (operand # operands), args'')))"

text \<open>
  The type switch of \<^verbatim>\<open>toPatternExpressionJob\<close> on \<^verbatim>\<open>q.Pattern\<close>; a \<^verbatim>\<open>nil\<close> pattern
  matches no case and reaches the error after the switch.
\<close>

definition toPatternExpressionJob ::
  "'z env \<Rightarrow> SearchInputs \<Rightarrow> Basic \<Rightarrow> (error + 'z Job) \<times> SearchInputs" where
  "toPatternExpressionJob env args q =
     (case Pattern q of
        Some term \<Rightarrow> toPatternExpressionNode env args (Parameters q) term
      | None \<Rightarrow> (Inl (Error ''unrecognized type <nil> in evaluatePatternExpression''), args))"

text \<open>
  \<^verbatim>\<open>toAndJob\<close> and \<^verbatim>\<open>toOrJob\<close> read the operands by the type assertion
  \<^verbatim>\<open>q.Pattern.(query.Operator)\<close>, which panics on any other node.
\<close>

definition toAndJob ::
  "'z env \<Rightarrow> SearchInputs \<Rightarrow> Basic \<Rightarrow> (error + 'z Job) \<times> SearchInputs" where
  "toAndJob env args q =
     (case Pattern q of
        Some (OperatorNode kind queryOperands ann) \<Rightarrow>
          (case andOperands env args (Parameters q) queryOperands of
             (Inl err, args') \<Rightarrow> (Inl err, args')
           | (Inr operands, args') \<Rightarrow> (Inr (NewAndJob operands), args'))
      | _ \<Rightarrow> (Inl (Panic ''interface conversion: query.Node is not query.Operator''), args))"

definition toOrJob ::
  "'z env \<Rightarrow> SearchInputs \<Rightarrow> Basic \<Rightarrow> (error + 'z Job) \<times> SearchInputs" where
  "toOrJob env args q =
     (case Pattern q of
        Some (OperatorNode kind queryOperands ann) \<Rightarrow>
          (case orOperands env args (Parameters q) queryOperands of
             (Inl err, args') \<Rightarrow> (Inl err, args')
           | (Inr operands, args') \<Rightarrow> (Inr (NewOrJob operands), args'))
      | _ \<Rightarrow> (Inl (Panic ''interface conversion: query.Node is not query.Operator''), args))"

subsection \<open>ToEvaluateJob, FromExpandedPlan\<close>

definition ToEvaluateJob ::
  "'z env \<Rightarrow> SearchInputs \<Rightarrow> Basic \<Rightarrow> (error + 'z Job) \<times> SearchInputs" where
  "ToEvaluateJob env args q =
     (let maxResults = MaxResults env (ToParseTree env q) (DefaultLimit env args);
          timeout = TimeoutDuration env q
      in case (if Pattern q = None then ToSearchJob env args (ToNodes (Parameters q))
               else toPatternExpressionJob env args q) of
           (Inl err, args') \<Rightarrow> (Inl err, args')
         | (Inr job, args') \<Rightarrow>
             let v = StringValue env (ToParseTree env q) FieldSelect;
                 job' = (if v \<noteq> [] then NewSelectJob (SelectPathFromString env v) job else job)
             in (Inr (NewTimeoutJob timeout (NewLimitJob maxResults job')), args'))"

text \<open>The loop of \<^verbatim>\<open>FromExpandedPlan\<close> over the plan, which stops at the first error.\<close>

fun planChildren ::
  "'z env \<Rightarrow> SearchInputs \<Rightarrow> Plan \<Rightarrow> (error + 'z Job list) \<times> SearchInputs" where
  "planChildren env args [] = (Inr [], args)"
| "planChildren env args (q # plan) =
     (case ToEvaluateJob env args q of
        (Inl err, args') \<Rightarrow> (Inl err, args')
      | (Inr child, args') \<Rightarrow>
          (case planChildren env args' plan of
             (Inl err, args'') \<Rightarrow> (Inl err, args'')
           | (Inr children, args'') \<Rightarrow> (Inr (child # children), args'')))"

definition FromExpandedPlan ::
  "'z env \<Rightarrow> SearchInputs \<Rightarrow> Plan \<Rightarrow> (error + 'z Job) \<times> SearchInputs" where
  "FromExpandedPlan env args plan =
     (case planChildren env args plan of
        (Inl err, args') \<Rightarrow> (Inl err, args')
      | (Inr children, args') \<Rightarrow> (Inr (NewAlertJob (NewOrJob children)), args'))"

section \<open>Reading a job tree\<close>

text \<open>
  The predicates below are used to state the theorems: the nodes of a job tree, the
  kind of a node, and the pattern info a leaf carries.
\<close>

fun subJobs :: "'z Job \<Rightarrow> 'z Job list" where
  "subJobs (repoPagerJob child ro ui crg) = repoPagerJob child ro ui crg # subJobs child"
| "subJobs (ParallelJob js) = ParallelJob js # concat (map subJobs js)"
| "subJobs (PriorityJob r opt) = PriorityJob r opt # subJobs r @ subJobs opt"
| "subJobs (AndJob js) = AndJob js # concat (map subJobs js)"
| "subJobs (OrJob js) = OrJob js # concat (map subJobs js)"
| "subJobs (LimitJob n j) = LimitJob n j # subJobs j"
| "subJobs (TimeoutJob d j) = TimeoutJob d j # subJobs j"
| "subJobs (SelectJob p j) = SelectJob p j # subJobs j"
| "subJobs (FilterJob j) = FilterJob j # subJobs j"
| "subJobs (AlertJob j) = AlertJob j # subJobs j"
| "subJobs j = [j]"

definition isComputeExcludedRepos :: "'z Job \<Rightarrow> bool" where
  "isComputeExcludedRepos j = (case j of ComputeExcludedRepos ro \<Rightarrow> True | _ \<Rightarrow> False)"

definition isRepoSearch :: "'z Job \<Rightarrow> bool" where
  "isRepoSearch j = (case j of RepoSearch ro f ufd q p m \<Rightarrow> True | _ \<Rightarrow> False)"

definition isStructuralSearch :: "'z Job \<Rightarrow> bool" where
  "isStructuralSearch j =
     (case j of StructuralSearch z t l s p ufd nso ui crg ro \<Rightarrow> True | _ \<Rightarrow> False)"



text \<open>The number of ComputeExcludedRepos jobs in a tree.\<close>

definition countExcluded :: "'z Job \<Rightarrow> nat" where
  "countExcluded job = length (filter isComputeExcludedRepos (subJobs job))"

text \<open>The pattern info a node carries, if it carries one.\<close>

definition jobPatternInfo :: "'z Job \<Rightarrow> TextPatternInfo option" where
  "jobPatternInfo j =
     (case j of
        RepoUniverseSymbolSearch z d ip t l s p n ro \<Rightarrow> Some p
      | Searcher p i ufd \<Rightarrow> Some p
      | SymbolSearcher p n \<Rightarrow> Some p
      | StructuralSearch z t l s p ufd nso ui crg ro \<Rightarrow> Some p
      | RepoSearch ro f ufd q p m \<Rightarrow> Some p
      | _ \<Rightarrow> None)"

text \<open>
  \<^verbatim>\<open>useFullDeadline\<close> as ToSearchJob computes it at line 68: a timeout, a count, or the
  streaming protocol.
\<close>

definition useFullDeadlineOf :: "'z env \<Rightarrow> SearchInputs \<Rightarrow> Q \<Rightarrow> bool" where
  "useFullDeadlineOf env inputs q =
     (QTimeout env q \<noteq> None \<or> QCount env q \<noteq> None \<or> Protocol inputs = Streaming)"


text \<open>
  The parameters that keep a query from the search over all indexed repositories,
  after the predicate of jobMode: a search context that is not the global one, a
  \<^verbatim>\<open>repo:\<close> filter that is not negated, and \<^verbatim>\<open>repohasfile:\<close>.
\<close>

definition repoScoping :: "'z env \<Rightarrow> Parameter \<Rightarrow> bool" where
  "repoScoping env p =
     ((Field p = FieldContext \<and> \<not> IsGlobalSearchContextSpec env (Value p))
      \<or> (Field p = FieldRepo \<and> \<not> Negated p)
      \<or> Field p = FieldRepoHasFile)"

text \<open>The filter ToSearchJob puts over its tree when sub-repository permissions are enabled.\<close>

definition underFilter :: "'z env \<Rightarrow> 'z Job \<Rightarrow> 'z Job" where
  "underFilter env job = (if SubRepoEnabled env then FilterJob job else job)"

text \<open>A property of every required job and a property of every optional job.\<close>

definition bucketsAll :: "('z Job \<Rightarrow> bool) \<Rightarrow> ('z Job \<Rightarrow> bool) \<Rightarrow> 'z buckets \<Rightarrow> bool" where
  "bucketsAll R Opt bk = (list_all R (fst bk) \<and> list_all Opt (snd bk))"

text \<open>
  The result types and the pattern info ToSearchJob computes at lines 56 to 59, for a
  query \<open>q\<close> with basic form \<open>b\<close>, before the fallback of line 60.
\<close>

definition resultTypesOf :: "'z env \<Rightarrow> SearchInputs \<Rightarrow> Q \<Rightarrow> Basic \<Rightarrow> Types" where
  "resultTypesOf env jargs q b =
     ComputeResultTypes env (StringValues env q FieldType) (PatternString env b) (PatternType jargs)"

definition patternInfoOf :: "'z env \<Rightarrow> SearchInputs \<Rightarrow> Q \<Rightarrow> Basic \<Rightarrow> TextPatternInfo" where
  "patternInfoOf env jargs q b = ToTextPatternInfo env b (resultTypesOf env jargs q b) (Protocol jargs)"

text \<open>
  The translations ToSearchJob may ask of the other packages: the basic form of the
  query, the default global query scope of its repo options, and the Zoekt query of its
  pattern info (as the fallback leaves it) for text and for symbol requests.
  \<open>translationErrors\<close> lists the errors they return, and \<open>translates\<close> holds when
  all of them succeed.
\<close>

definition isOK :: "error + 'a \<Rightarrow> bool" where
  "isOK r = (case r of Inl err \<Rightarrow> False | Inr x \<Rightarrow> True)"

definition errorOf :: "error + 'a \<Rightarrow> error list" where
  "errorOf r = (case r of Inl err \<Rightarrow> [err] | Inr x \<Rightarrow> [])"

definition translationErrors :: "'z env \<Rightarrow> SearchInputs \<Rightarrow> Q \<Rightarrow> error list" where
  "translationErrors env jargs q =
     (case ToBasicQuery env q of
        Inl err \<Rightarrow> [err]
      | Inr b \<Rightarrow>
          errorOf (DefaultGlobalQueryScope env (toRepoOptions env q (UserSettings jargs)))
          @ errorOf (QueryToZoektQuery env (snd (patternFallback jargs (patternInfoOf env jargs q b)))
                   (toFeatures (Features jargs)) TextRequest)
          @ errorOf (QueryToZoektQuery env (snd (patternFallback jargs (patternInfoOf env jargs q b)))
                   (toFeatures (Features jargs)) SymbolRequest))"

definition translates :: "'z env \<Rightarrow> SearchInputs \<Rightarrow> Q \<Rightarrow> bool" where
  "translates env jargs q =
     (case ToBasicQuery env q of
        Inl err \<Rightarrow> False
      | Inr b \<Rightarrow>
          isOK (DefaultGlobalQueryScope env (toRepoOptions env q (UserSettings jargs)))
          \<and> isOK (QueryToZoektQuery env (snd (patternFallback jargs (patternInfoOf env jargs q b)))
                   (toFeatures (Features jargs)) TextRequest)
          \<and> isOK (QueryToZoektQuery env (snd (patternFallback jargs (patternInfoOf env jargs q b)))
                   (toFeatures (Features jargs)) SymbolRequest))"

text \<open>A node of the tree is a structural search, or carries a structural pattern info.\<close>

definition structuralNode :: "'z Job \<Rightarrow> bool" where
  "structuralNode j =
     (isStructuralSearch j \<or> (case jobPatternInfo j of Some p \<Rightarrow> IsStructuralPat p | None \<Rightarrow> False))"

text \<open>
  A loop that compiles a list of items in turn with \<open>f\<close>, each from the search inputs
  the one before left, every one returning a job: the jobs, in order, and the search
  inputs after the last.
\<close>

inductive compiledInTurn ::
  "(SearchInputs \<Rightarrow> 'a \<Rightarrow> (error + 'b) \<times> SearchInputs) \<Rightarrow>
   SearchInputs \<Rightarrow> 'a list \<Rightarrow> 'b list \<Rightarrow> SearchInputs \<Rightarrow> bool"
  for f :: "SearchInputs \<Rightarrow> 'a \<Rightarrow> (error + 'b) \<times> SearchInputs"
where
  turnNil: "compiledInTurn f args [] [] args"
| turnCons: "f args x = (Inr y, args1) \<Longrightarrow> compiledInTurn f args1 xs ys args' \<Longrightarrow>
             compiledInTurn f args (x # xs) (y # ys) args'"

text \<open>
  The shapes of the trees of ToEvaluateJob. A search tree is what ToSearchJob returns:
  Priority(Parallel, Parallel), under a Filter node exactly when sub-repository
  permissions are enabled.
\<close>

definition isPriorityTree :: "'z Job \<Rightarrow> bool" where
  "isPriorityTree t =
     (case t of
        PriorityJob r opt \<Rightarrow>
          (case r of ParallelJob rs \<Rightarrow> (case opt of ParallelJob os \<Rightarrow> True | _ \<Rightarrow> False)
           | _ \<Rightarrow> False)
      | _ \<Rightarrow> False)"

definition isSearchTree :: "'z env \<Rightarrow> 'z Job \<Rightarrow> bool" where
  "isSearchTree env t =
     (if SubRepoEnabled env then (case t of FilterJob j \<Rightarrow> isPriorityTree j | _ \<Rightarrow> False)
      else isPriorityTree t)"

text \<open>
  The tree of a pattern expression, node by node: a search tree for a single pattern and
  for a concatenation; Noop for a parameter and for an operator without operands; for an
  And operator one And node whose children are, operand by operand, Limit 40000 over
  the operand's tree; for an Or operator one Or node whose children are, operand by
  operand, the operands' trees.
\<close>

fun patternTree :: "'z env \<Rightarrow> Node \<Rightarrow> 'z Job \<Rightarrow> bool"
  and andTrees :: "'z env \<Rightarrow> Node list \<Rightarrow> 'z Job list \<Rightarrow> bool"
  and orTrees :: "'z env \<Rightarrow> Node list \<Rightarrow> 'z Job list \<Rightarrow> bool"
where
  "patternTree env (PatternNode v n a) t = isSearchTree env t"
| "patternTree env (ParameterNode p) t = (t = NoopJob)"
| "patternTree env (OperatorNode kind ops a) t =
     (if ops = [] then t = NoopJob
      else (case kind of
              And \<Rightarrow> (case t of AndJob js \<Rightarrow> andTrees env ops js | _ \<Rightarrow> False)
            | Or \<Rightarrow> (case t of OrJob js \<Rightarrow> orTrees env ops js | _ \<Rightarrow> False)
            | Concat \<Rightarrow> isSearchTree env t))"
| "andTrees env [] js = (js = [])"
| "andTrees env (n # ns) js =
     (case js of
        [] \<Rightarrow> False
      | j # js' \<Rightarrow>
          (case j of LimitJob k t \<Rightarrow> k = 40000 \<and> patternTree env n t | _ \<Rightarrow> False)
          \<and> andTrees env ns js')"
| "orTrees env [] js = (js = [])"
| "orTrees env (n # ns) js =
     (case js of
        [] \<Rightarrow> False
      | j # js' \<Rightarrow> patternTree env n j \<and> orTrees env ns js')"

text \<open>The tree of a basic query: a search tree without a pattern, else the tree of the pattern.\<close>

definition queryTree :: "'z env \<Rightarrow> Basic \<Rightarrow> 'z Job \<Rightarrow> bool" where
  "queryTree env q t =
     (case Pattern q of
        None \<Rightarrow> isSearchTree env t
      | Some n \<Rightarrow> patternTree env n t)"

text \<open>
  The child ToEvaluateJob returns for the basic query \<open>q\<close>, called with the search
  inputs \<open>args\<close>: Timeout, with the timeout of the query, over Limit, with the maximum
  results of the query, over the tree of the query, which stands under a Select node
  with the path of the \<^verbatim>\<open>select:\<close> value exactly when that value is not empty.
\<close>

definition wrapped :: "'z env \<Rightarrow> SearchInputs \<Rightarrow> Basic \<Rightarrow> 'z Job \<Rightarrow> bool" where
  "wrapped env args q child =
     (case child of
        TimeoutJob d l \<Rightarrow>
          d = TimeoutDuration env q \<and>
          (case l of
             LimitJob n s \<Rightarrow>
               n = MaxResults env (ToParseTree env q) (DefaultLimit env args) \<and>
               (let v = StringValue env (ToParseTree env q) FieldSelect
                in if v \<noteq> []
                   then (case s of
                           SelectJob sp t \<Rightarrow> sp = SelectPathFromString env v \<and> queryTree env q t
                         | _ \<Rightarrow> False)
                   else queryTree env q s)
           | _ \<Rightarrow> False)
      | _ \<Rightarrow> False)"


section \<open>Sample collaborators and inputs\<close>

text \<open>
  One instance of the functions of the other packages, and sample inputs, at which the
  compiler is evaluated below. The Zoekt query of a pattern info is stood for by its
  pattern string. Under the structural search type, a query with a pattern has the
  sample result types 64, a bit that is none of the six types above.
\<close>

definition typeFromString :: "string \<Rightarrow> Types" where
  "typeFromString t =
     (if t = ''repo'' then TypeRepo else if t = ''symbol'' then TypeSymbol
      else if t = ''file'' then TypeFile else if t = ''path'' then TypePath
      else if t = ''diff'' then TypeDiff else if t = ''commit'' then TypeCommit else 0)"

definition isParameterNode :: "Node \<Rightarrow> bool" where
  "isParameterNode n = (case n of ParameterNode p \<Rightarrow> True | _ \<Rightarrow> False)"

definition sampleEnv :: "string env" where
  "sampleEnv =
     \<lparr>MaxResults = (\<lambda>q dflt. dflt),
      DefaultLimit = (\<lambda>inputs.
         if Protocol inputs = Batch \<or> PatternType inputs = SearchTypeStructural then 30 else 500),
      ToBasicQuery = (\<lambda>q.
         case filter (\<lambda>n. \<not> isParameterNode n) q of
           [] \<Rightarrow> Inr \<lparr>Parameters = VisitParameter q, Pattern = None\<rparr>
         | [n] \<Rightarrow> Inr \<lparr>Parameters = VisitParameter (filter isParameterNode q), Pattern = Some n\<rparr>
         | _ \<Rightarrow> Inl (Error ''cannot evaluate: unable to partition pure search pattern'')),
      StringValues = (\<lambda>q field.
         map Value (filter (\<lambda>p. Field p = field \<and> \<not> Negated p) (VisitParameter q))),
      StringValue = (\<lambda>q field.
         case rev (filter (\<lambda>p. Field p = field \<and> \<not> Negated p) (VisitParameter q)) of
           [] \<Rightarrow> []
         | p # ps \<Rightarrow> Value p),
      ComputeResultTypes = (\<lambda>types pattern st.
         if st = SearchTypeStructural \<and> pattern \<noteq> [] then 64
         else if types = [] then TypeFile OR TypePath OR TypeRepo
         else fold (\<lambda>t rts. rts OR typeFromString t) types 0),
      ToTextPatternInfo = (\<lambda>b rts p.
         \<lparr>tpPattern = (case Pattern b of Some (PatternNode v n a) \<Rightarrow> v | _ \<Rightarrow> []),
          IsStructuralPat = (case Pattern b of Some (PatternNode v n a) \<Rightarrow> a = 64 | _ \<Rightarrow> False),
          FileMatchLimit = (if p = Batch then 30 else 500),
          Select = [],
          Index = Yes\<rparr>),
      QTimeout = (\<lambda>q. if FieldTimeout \<in> set (map Field (VisitParameter q)) then Some 10 else None),
      QCount = (\<lambda>q. if FieldCount \<in> set (map Field (VisitParameter q)) then Some 10 else None),
      Repositories = (\<lambda>q.
         (map Value (filter (\<lambda>p. Field p = FieldRepo \<and> \<not> Negated p) (VisitParameter q)),
          map Value (filter (\<lambda>p. Field p = FieldRepo \<and> Negated p) (VisitParameter q)))),
      QDependencies = (\<lambda>q. []),
      ExactlyOneRepo = (\<lambda>repoFilters. False),
      Fork = (\<lambda>q. None),
      Archived = (\<lambda>q. None),
      ParseVisibility = (\<lambda>s.
         if s = ''private'' then Private else if s = ''public'' then Public else Any),
      IsCaseSensitive = (\<lambda>q. False),
      ContainsRefGlobs = (\<lambda>q. False),
      ToParseTree = (\<lambda>b.
         ToNodes (Parameters b) @ (case Pattern b of None \<Rightarrow> [] | Some n \<Rightarrow> [n])),
      PatternString = (\<lambda>b. case Pattern b of Some (PatternNode v n a) \<Rightarrow> v | _ \<Rightarrow> []),
      BIndex = (\<lambda>b. Yes),
      Exists = (\<lambda>b field. field \<in> set (map Field (Parameters b))),
      IsGlobalSearchContextSpec = (\<lambda>spec. spec = ''global''),
      DefaultGlobalQueryScope = (\<lambda>opts. Inr ''scope''),
      QueryToZoektQuery = (\<lambda>p feat typ. Inr (tpPattern p)),
      regexpCompiles = (\<lambda>s. True),
      SubRepoEnabled = False,
      TimeoutDuration = (\<lambda>b. 20),
      SelectPathFromString = (\<lambda>s. [s])\<rparr>"

definition sampleInputs :: SearchInputs where
  "sampleInputs =
     \<lparr>PatternType = SearchTypeLiteral, Protocol = Batch, Features = None,
      UserSettings = \<lparr>SearchIncludeForks = None, SearchIncludeArchived = None\<rparr>,
      OnSourcegraphDotCom = False\<rparr>"

definition param :: "string \<Rightarrow> string \<Rightarrow> Parameter" where
  "param f v = \<lparr>Field = f, Value = v, Negated = False, Annotation = 0\<rparr>"

text \<open>\<^verbatim>\<open>repo:foo type:file type:symbol foo\<close>\<close>

definition sampleQuery :: Q where
  "sampleQuery =
     [ParameterNode (param ''repo'' ''foo''), ParameterNode (param ''type'' ''file''),
      ParameterNode (param ''type'' ''symbol''), PatternNode ''foo'' False 0]"

definition sampleBasic :: Basic where
  "sampleBasic =
     \<lparr>Parameters = [param ''repo'' ''foo'', param ''type'' ''file'', param ''type'' ''symbol''],
      Pattern = Some (PatternNode ''foo'' False 0)\<rparr>"

text \<open>\<^verbatim>\<open>repo:bar\<close>, and \<^verbatim>\<open>type:repo lang:go\<close>, whose field \<^verbatim>\<open>lang\<close> is not on the allow-list.\<close>

definition sampleRepoQuery :: Q where
  "sampleRepoQuery = [ParameterNode (param ''repo'' ''bar'')]"

definition sampleLangQuery :: Q where
  "sampleLangQuery = [ParameterNode (param ''type'' ''repo''), ParameterNode (param ''lang'' ''go'')]"

text \<open>
  The basic queries of \<^verbatim>\<open>foo and bar\<close>, of \<^verbatim>\<open>foo or bar\<close>, and the plan of
  \<^verbatim>\<open>foo or repo:bar\<close> with \<^verbatim>\<open>foo\<close> a structural pattern; the sample inputs under the
  structural search type.
\<close>

definition sampleAnd :: Basic where
  "sampleAnd =
     \<lparr>Parameters = [],
      Pattern = Some (OperatorNode And [PatternNode ''foo'' False 0, PatternNode ''bar'' False 0] 0)\<rparr>"

definition sampleOr :: Basic where
  "sampleOr =
     \<lparr>Parameters = [],
      Pattern = Some (OperatorNode Or [PatternNode ''foo'' False 0, PatternNode ''bar'' False 0] 0)\<rparr>"

definition samplePlan :: Plan where
  "samplePlan =
     [\<lparr>Parameters = [], Pattern = Some (PatternNode ''foo'' False 64)\<rparr>,
      \<lparr>Parameters = [param ''repo'' ''bar''], Pattern = None\<rparr>]"

definition structuralInputs :: SearchInputs where
  "structuralInputs = sampleInputs\<lparr>PatternType := SearchTypeStructural\<rparr>"


text \<open>
  The basic query of \<^verbatim>\<open>"" and foo\<close>, and of \<^verbatim>\<open>foo and ""\<close>, with \<^verbatim>\<open>foo\<close> a structural
  pattern: an And operator with an operand whose pattern is empty.
\<close>

definition sampleEmptyAnd :: Basic where
  "sampleEmptyAnd =
     \<lparr>Parameters = [],
      Pattern = Some (OperatorNode And [PatternNode [] False 0, PatternNode ''foo'' False 64] 0)\<rparr>"

definition sampleAndEmpty :: Basic where
  "sampleAndEmpty =
     \<lparr>Parameters = [],
      Pattern = Some (OperatorNode And [PatternNode ''foo'' False 64, PatternNode [] False 0] 0)\<rparr>"
section \<open>The unindexed matcher (cmd/searcher/search)\<close>

text \<open>
  Modelled from the spec: the search service of \<^verbatim>\<open>cmd/searcher/search\<close>, whose source
  is not part of this development. Its test \<^verbatim>\<open>search_test.go\<close> is, and gives the fields
  of a request, the files of the scenario, the expected matches and the requests that
  must fail. After the spec, the service receives a request with a repository, a commit
  and a pattern info (pattern string, case sensitivity, regex, word and structural
  flags, include and exclude path patterns, negation, path and content flags) and
  answers with file and line matches or an error; the regular expression engine and the
  structural matcher are black boxes; and a structural pattern takes precedence over a
  literal or regex interpretation when both are set.
\<close>

record PatternInfo =
  ppPattern :: string
  ppIsNegated :: bool
  ppIsRegExp :: bool
  ppIsStructuralPat :: bool
  ppIsWordMatch :: bool
  ppIsCaseSensitive :: bool
  ppExcludePattern :: string
  ppIncludePatterns :: "string list"
  ppPathPatternsAreRegExps :: bool
  ppPathPatternsAreCaseSensitive :: bool
  ppPatternMatchesPath :: bool
  ppPatternMatchesContent :: bool

record Request =
  reqRepo :: string
  reqCommit :: string
  reqPatternInfo :: PatternInfo

text \<open>Modelled from the spec: a file match, the path and the numbers of the matched lines, none for a match of the file as a whole.\<close>

type_synonym FileMatch = "string \<times> nat list"

text \<open>
  Modelled from the spec: the black boxes. The structural matcher gives the numbers of the lines of a content
  that a template matches, or fails. The regular expression engine compiles an
  expression, with the word and case flags, into a matcher that gives the numbers of the
  matched lines of a text, or fails. A path pattern, a regular expression or a glob
  after the first flag, case sensitive or not after the second, compiles into a test on
  paths, or fails.
\<close>

record engines =
  structuralMatch :: "string \<Rightarrow> string \<Rightarrow> error + nat list"
  regexpCompile :: "string \<Rightarrow> bool \<Rightarrow> bool \<Rightarrow> error + (string \<Rightarrow> nat list)"
  quoteMeta :: "string \<Rightarrow> string"
  pathCompile :: "bool \<Rightarrow> bool \<Rightarrow> string \<Rightarrow> error + (string \<Rightarrow> bool)"

text \<open>
  Modelled from the spec: the requests refused before any search, after
  \<^verbatim>\<open>TestSearch_badrequest\<close>: no repository, a commit that is not absolute (forty
  hexadecimal digits), and a structural search with a negated pattern.
\<close>

definition isAbsoluteRevision :: "string \<Rightarrow> bool" where
  "isAbsoluteRevision c = (length c = 40 \<and> list_all (\<lambda>x. x \<in> set ''0123456789abcdef'') c)"

definition validateParams :: "Request \<Rightarrow> error + unit" where
  "validateParams r =
     (if reqRepo r = [] then Inl (Error ''Repo must be non-empty'')
      else if \<not> isAbsoluteRevision (reqCommit r) then Inl (Error ''Commit must be resolved'')
      else if ppIsNegated (reqPatternInfo r) \<and> ppIsStructuralPat (reqPatternInfo r)
      then Inl (Error ''Negated patterns are not supported for structural searches'')
      else Inr ())"

datatype patternKind = AsStructural | AsRegexp | AsLiteral

text \<open>Modelled from the spec: the structural flag wins over the regex flag.\<close>

definition interpretationOf :: "PatternInfo \<Rightarrow> patternKind" where
  "interpretationOf p =
     (if ppIsStructuralPat p then AsStructural
      else if ppIsRegExp p then AsRegexp
      else AsLiteral)"

text \<open>
  Modelled from the spec: the files searched, those every include pattern matches and the exclude pattern, if
  there is one, does not. A path pattern that does not compile is an error.
\<close>

fun compileAll :: "(string \<Rightarrow> error + (string \<Rightarrow> bool)) \<Rightarrow> string list \<Rightarrow> error + (string \<Rightarrow> bool) list" where
  "compileAll c [] = Inr []"
| "compileAll c (x # xs) = bindE (c x) (\<lambda>m. bindE (compileAll c xs) (\<lambda>ms. Inr (m # ms)))"

definition searchedPath :: "engines \<Rightarrow> PatternInfo \<Rightarrow> error + (string \<Rightarrow> bool)" where
  "searchedPath e p =
     (let compile = pathCompile e (ppPathPatternsAreRegExps p) (ppPathPatternsAreCaseSensitive p) in
      bindE (compileAll compile (ppIncludePatterns p)) (\<lambda>includes.
      bindE (if ppExcludePattern p = [] then Inr (\<lambda>path. False) else compile (ppExcludePattern p))
        (\<lambda>excluded.
      Inr (\<lambda>path. list_all (\<lambda>m. m path) includes \<and> \<not> excluded path))))"

text \<open>
  Modelled from the spec: the structural search of the files, the structural matcher on the content of each,
  with the pattern as the template; a file is a match when some line of it is.
\<close>

fun structuralSearch ::
  "engines \<Rightarrow> string \<Rightarrow> (string \<times> string) list \<Rightarrow> error + FileMatch list" where
  "structuralSearch e template [] = Inr []"
| "structuralSearch e template ((path, body) # files) =
     bindE (structuralMatch e template body) (\<lambda>ls.
     bindE (structuralSearch e template files) (\<lambda>rest.
     Inr (if ls = [] then rest else (path, ls) # rest)))"

text \<open>
  Modelled from the spec: the regex and literal search of the files, after the rows of
  \<^verbatim>\<open>TestSearch\<close>, with the matcher the regular expression engine compiled. The pattern is matched on the content unless only the path flag is
  set, and on the path when the path flag is set. A negated search gives the files
  without a match, as matches of the whole file. An empty pattern matches every file
  as a whole.
\<close>

definition regexSearch ::
  "(string \<Rightarrow> nat list) \<Rightarrow> PatternInfo \<Rightarrow> (string \<times> string) list \<Rightarrow> FileMatch list" where
  "regexSearch m p files =
     (let onContent = (ppPatternMatchesContent p \<or> \<not> ppPatternMatchesPath p);
          found = map (\<lambda>(path, body).
                    (path, if onContent then m body else [],
                     ppPatternMatchesPath p \<and> m path \<noteq> [])) files
      in if ppPattern p = [] then map (\<lambda>(path, body). (path, [])) files
         else if ppIsNegated p
         then map (\<lambda>(path, ls, onPath). (path, []))
                (filter (\<lambda>(path, ls, onPath). ls = [] \<and> \<not> onPath) found)
         else map (\<lambda>(path, ls, onPath). (path, ls))
                (filter (\<lambda>(path, ls, onPath). ls \<noteq> [] \<or> onPath) found))"

text \<open>
  Modelled from the spec: the expression handed to the regular expression engine, the
  pattern, quoted unless it is a regex.
\<close>

definition regexpMatcher :: "engines \<Rightarrow> PatternInfo \<Rightarrow> error + (string \<Rightarrow> nat list)" where
  "regexpMatcher e p =
     regexpCompile e (if ppIsRegExp p then ppPattern p else quoteMeta e (ppPattern p))
       (ppIsWordMatch p) (ppIsCaseSensitive p)"

text \<open>
  Modelled from the spec: a search over files, given as paths with contents. It gives
  the file matches, in the order of the files, or the error: of the request, of a path
  pattern, of the regular expression engine or of the structural matcher.
\<close>

definition searcherSearch ::
  "engines \<Rightarrow> (string \<times> string) list \<Rightarrow> Request \<Rightarrow> error + FileMatch list" where
  "searcherSearch e files r =
     (let p = reqPatternInfo r in
      bindE (validateParams r) (\<lambda>u.
      bindE (searchedPath e p) (\<lambda>searched.
        let candidates = filter (\<lambda>(path, body). searched path) files
        in case interpretationOf p of
             AsStructural \<Rightarrow> structuralSearch e (ppPattern p) candidates
           | _ \<Rightarrow> bindE (regexpMatcher e p) (\<lambda>m. Inr (regexSearch m p candidates)))))"

text \<open>
  The scenario of \<^verbatim>\<open>TestSearch\<close>: its files (without the binary file
  \<^verbatim>\<open>milton.png\<close> and the file \<^verbatim>\<open>ignore.me\<close>, which the store filters out; the symbolic
  link stands with its target as content), and the request with both flags set. The
  sample engines have a structural matcher that, for a template without holes, gives
  the lines that contain the template, a glob matcher that, for a glob without
  wildcards, matches the path equal to it, and a regular expression engine that rejects
  every expression, for patterns and for paths.
\<close>

fun containsStr :: "string \<Rightarrow> string \<Rightarrow> bool" where
  "containsStr t [] = (t = [])"
| "containsStr t (c # cs) = (take (length t) (c # cs) = t \<or> containsStr t cs)"

fun splitLines :: "string \<Rightarrow> string \<Rightarrow> string list" where
  "splitLines acc [] = [rev acc]"
| "splitLines acc (c # cs) =
     (if c = CHR 0x0A then rev acc # splitLines [] cs else splitLines (c # acc) cs)"

definition containingLines :: "string \<Rightarrow> string \<Rightarrow> nat list" where
  "containingLines t body =
     map fst (filter (\<lambda>(n, l). containsStr t l)
       (zip [1 ..< Suc (length (splitLines [] body))] (splitLines [] body)))"

definition sampleEngines :: engines where
  "sampleEngines =
     \<lparr>structuralMatch = (\<lambda>template body. Inr (containingLines template body)),
      regexpCompile = (\<lambda>expr wordMatch caseSensitive. Inl (Error ''error parsing regexp'')),
      quoteMeta = (\<lambda>s. s),
      pathCompile = (\<lambda>areRegExps caseSensitive pattern.
         if areRegExps then Inl (Error ''error parsing regexp'')
         else Inr (\<lambda>path. path = pattern))\<rparr>"

definition testFiles :: "(string \<times> string) list" where
  "testFiles =
     [(''README.md'', ''# Hello World'' @ [CHR 0x0A, CHR 0x0A] @ ''Hello world example in go''),
      (''abc.txt'', ''w''),
      (''file++.plus'', ''filename contains regex metachars''),
      (''main.go'',
       ''package main'' @ [CHR 0x0A, CHR 0x0A] @ ''import '' @ [CHR 0x22] @ ''fmt'' @ [CHR 0x22, CHR 0x0A, CHR 0x0A]
       @ ''func main() {'' @ [CHR 0x0A, CHR 0x09] @ ''fmt.Println('' @ [CHR 0x22] @ ''Hello world'' @ [CHR 0x22]
       @ '')'' @ [CHR 0x0A] @ ''}'' @ [CHR 0x0A]),
      (''symlink'', ''abc.txt'')]"

definition emptyPatternInfo :: PatternInfo where
  "emptyPatternInfo =
     \<lparr>ppPattern = [],
      ppIsNegated = False,
      ppIsRegExp = False,
      ppIsStructuralPat = False,
      ppIsWordMatch = False,
      ppIsCaseSensitive = False,
      ppExcludePattern = [],
      ppIncludePatterns = [],
      ppPathPatternsAreRegExps = False,
      ppPathPatternsAreCaseSensitive = False,
      ppPatternMatchesPath = False,
      ppPatternMatchesContent = False\<rparr>"

definition testRequest :: "PatternInfo \<Rightarrow> Request" where
  "testRequest p =
     \<lparr>reqRepo = ''foo'', reqCommit = ''deadbeefdeadbeefdeadbeefdeadbeefdeadbeef'', reqPatternInfo = p\<rparr>"

definition scenarioRequest :: Request where
  "scenarioRequest =
     testRequest (emptyPatternInfo
       \<lparr>ppPattern := ''filename contains regex metachars'',
        ppIncludePatterns := [''file++.plus''],
        ppIsStructuralPat := True,
        ppIsRegExp := True\<rparr>)"

text \<open>
  A second set of sample engines, for the literal searches of \<^verbatim>\<open>TestSearch\<close>: the
  regular expression engine compiles an expression into the search for it as a
  substring, case sensitive; the expressions used below have no metacharacters.
\<close>

definition literalEngines :: engines where
  "literalEngines =
     sampleEngines\<lparr>regexpCompile := (\<lambda>expr wordMatch caseSensitive. Inr (containingLines expr))\<rparr>"

section \<open>Theorems\<close>

subsection \<open>Errors and buckets\<close>

lemma bindE_Inl: "bindE (Inl e) f = Inl e"
  by (simp add: bindE_def)

lemma bindE_Inr: "bindE (Inr x) f = f x"
  by (simp add: bindE_def)

lemma bindE_eq_Inr: "bindE m f = Inr y \<longleftrightarrow> (\<exists>x. m = Inr x \<and> f x = Inr y)"
  by (cases m) (simp_all add: bindE_def)

subsection \<open>What ToSearchJob writes\<close>

lemma patternFallback_inputs:
  "fst (patternFallback inputs p) =
     (if tpPattern p = [] then inputs\<lparr>PatternType := SearchTypeLiteral\<rparr> else inputs)"
  by (simp add: patternFallback_def)

text \<open>
  C10: ToSearchJob writes to its arguments in one case only. When the query has a basic
  form and the pattern of the computed pattern info is empty, the search inputs come
  back with PatternType set to literal and every other field as it was; when that
  pattern is not empty, or the query has no basic form, the search inputs come back as
  they were given.
\<close>

theorem ToSearchJob_frame:
  "snd (ToSearchJob env jargs q) =
     (case ToBasicQuery env q of
        Inl err \<Rightarrow> jargs
      | Inr b \<Rightarrow>
          if tpPattern (ToTextPatternInfo env b
                (ComputeResultTypes env (StringValues env q FieldType) (PatternString env b)
                   (PatternType jargs))
                (Protocol jargs)) = []
          then jargs\<lparr>PatternType := SearchTypeLiteral\<rparr>
          else jargs)"
  by (simp add: ToSearchJob_def patternFallback_def Let_def split: sum.split prod.split)

theorem ToSearchJob_frame_witness:
  "snd (ToSearchJob sampleEnv (sampleInputs\<lparr>PatternType := SearchTypeStructural\<rparr>)
          [ParameterNode (param ''repo'' ''bar'')]) = sampleInputs
   \<and> snd (ToSearchJob sampleEnv (sampleInputs\<lparr>PatternType := SearchTypeStructural\<rparr>)
          [PatternNode ''foo'' False 64]) = sampleInputs\<lparr>PatternType := SearchTypeStructural\<rparr>"
  using ToSearchJob_frame [of sampleEnv "sampleInputs\<lparr>PatternType := SearchTypeStructural\<rparr>"
          "[ParameterNode (param ''repo'' ''bar'')]"]
        ToSearchJob_frame [of sampleEnv "sampleInputs\<lparr>PatternType := SearchTypeStructural\<rparr>"
          "[PatternNode ''foo'' False 64]"]
  by (simp add: sampleEnv_def sampleInputs_def isParameterNode_def VisitParameter_def param_def)

subsection \<open>The jobs each block of ToSearchJob adds\<close>

text \<open>
  Each block keeps a property \<open>R\<close> of the required jobs and a property \<open>Opt\<close> of the
  optional jobs, provided the job it may add has the property of the bucket it goes to.
\<close>

lemma bucketsAll_empty: "bucketsAll R Opt ([], [])"
  by (simp add: bucketsAll_def)

lemma bucketsAll_addJob:
  assumes "bucketsAll R Opt bk"
    and "required \<Longrightarrow> R j"
    and "\<not> required \<Longrightarrow> Opt j"
  shows "bucketsAll R Opt (addJob required j bk)"
  using assms by (cases bk) (auto simp: bucketsAll_def addJob_def)

lemma universeJobs_all:
  assumes run: "universeJobs env rt p f ro mr rus bk = Inr bk'"
    and bk: "bucketsAll R Opt bk"
    and glob: "\<And>z d ip. R (GlobalSearch z d ip TextRequest (FileMatchLimit p) (Select p) ro)"
    and sym: "\<And>z d ip. R (RepoUniverseSymbolSearch z d ip SymbolRequest (FileMatchLimit p) (Select p) p mr ro)"
  shows "bucketsAll R Opt bk'"
proof (cases rus)
  case False
  with run bk show ?thesis by (simp add: universeJobs_def)
next
  case True
  with run obtain d bk1 where
    one: "(if Has rt (TypeFile OR TypePath) then
             bindE (QueryToZoektQuery env p f TextRequest) (\<lambda>zoektQuery.
               Inr (addJob True
                 (GlobalSearch zoektQuery d (Visibility ro = Private \<or> Visibility ro = Any) TextRequest
                    (FileMatchLimit p) (Select p) ro) bk))
           else Inr bk) = Inr bk1"
    and two: "(if Has rt TypeSymbol then
                 bindE (QueryToZoektQuery env p f SymbolRequest) (\<lambda>zoektQuery.
                   Inr (addJob True
                     (RepoUniverseSymbolSearch zoektQuery d (Visibility ro = Private \<or> Visibility ro = Any)
                        SymbolRequest (FileMatchLimit p) (Select p) p mr ro) bk1))
               else Inr bk1) = Inr bk'"
    by (auto simp: universeJobs_def bindE_eq_Inr Let_def)
  from one bk glob have "bucketsAll R Opt bk1"
    by (auto simp: bindE_eq_Inr intro!: bucketsAll_addJob split: if_splits)
  with two sym show ?thesis
    by (auto simp: bindE_eq_Inr intro!: bucketsAll_addJob split: if_splits)
qed

lemma textJobs_all:
  assumes run: "textJobs env q rt p f ro ufd skip only bk = Inr bk'"
    and bk: "bucketsAll R Opt bk"
    and pager: "\<And>cs. cs = [] \<or> (\<exists>z. cs = [ZoektRepoSubsetSearch z TextRequest (FileMatchLimit p) (Select p)]) \<Longrightarrow>
                  R (repoPagerJob (ParallelJob (cs @ [Searcher p False ufd])) ro (Index p)
                       (ContainsRefGlobs env q))"
  shows "bucketsAll R Opt bk'"
  using run bk pager [of "[]"] pager
  by (auto simp: textJobs_def bindE_eq_Inr NewParallelJob_def intro!: bucketsAll_addJob
        split: if_splits)

lemma symbolJobs_all:
  assumes run: "symbolJobs env q rt p f ro mr ufd skip only bk = Inr bk'"
    and bk: "bucketsAll R Opt bk"
    and pager: "\<And>cs. cs = [] \<or> (\<exists>z. cs = [ZoektSymbolSearch z (FileMatchLimit p) (Select p)]) \<Longrightarrow>
                  Has rt TypeSymbol \<Longrightarrow> tpPattern p \<noteq> [] \<Longrightarrow>
                  (if ufd \<or> Without rt TypeSymbol = 0
                   then R (repoPagerJob (ParallelJob (cs @ [SymbolSearcher p mr])) ro (Index p)
                             (ContainsRefGlobs env q))
                   else Opt (repoPagerJob (ParallelJob (cs @ [SymbolSearcher p mr])) ro (Index p)
                             (ContainsRefGlobs env q)))"
  shows "bucketsAll R Opt bk'"
proof (cases "Has rt TypeSymbol \<and> tpPattern p \<noteq> [] \<and> \<not> skip")
  case False
  with run bk show ?thesis by (auto simp: symbolJobs_def)
next
  case True
  have "\<exists>cs. (cs = [] \<or> (\<exists>z. cs = [ZoektSymbolSearch z (FileMatchLimit p) (Select p)])) \<and>
          bk' = addJob (ufd \<or> Without rt TypeSymbol = 0)
                  (repoPagerJob (ParallelJob (cs @ [SymbolSearcher p mr])) ro (Index p)
                     (ContainsRefGlobs env q)) bk"
  proof (cases only)
    case True
    with run \<open>Has rt TypeSymbol \<and> tpPattern p \<noteq> [] \<and> \<not> skip\<close>
    have "bk' = addJob (ufd \<or> Without rt TypeSymbol = 0)
                  (repoPagerJob (ParallelJob ([] @ [SymbolSearcher p mr])) ro (Index p)
                     (ContainsRefGlobs env q)) bk"
      by (simp add: symbolJobs_def bindE_Inr NewParallelJob_def Let_def)
    then show ?thesis by blast
  next
    case False
    with run \<open>Has rt TypeSymbol \<and> tpPattern p \<noteq> [] \<and> \<not> skip\<close>
    obtain z where
      "bk' = addJob (ufd \<or> Without rt TypeSymbol = 0)
                  (repoPagerJob (ParallelJob ([ZoektSymbolSearch z (FileMatchLimit p) (Select p)]
                     @ [SymbolSearcher p mr])) ro (Index p) (ContainsRefGlobs env q)) bk"
      by (auto simp: symbolJobs_def bindE_eq_Inr NewParallelJob_def Let_def)
    then show ?thesis by blast
  qed
  then obtain cs where
    cs: "cs = [] \<or> (\<exists>z. cs = [ZoektSymbolSearch z (FileMatchLimit p) (Select p)])"
    and bk': "bk' = addJob (ufd \<or> Without rt TypeSymbol = 0)
                (repoPagerJob (ParallelJob (cs @ [SymbolSearcher p mr])) ro (Index p)
                   (ContainsRefGlobs env q)) bk"
    by blast
  from pager [OF cs] True
  have "if ufd \<or> Without rt TypeSymbol = 0
        then R (repoPagerJob (ParallelJob (cs @ [SymbolSearcher p mr])) ro (Index p)
                  (ContainsRefGlobs env q))
        else Opt (repoPagerJob (ParallelJob (cs @ [SymbolSearcher p mr])) ro (Index p)
                  (ContainsRefGlobs env q))"
    by simp
  with bk show ?thesis
    unfolding bk' by (intro bucketsAll_addJob) (auto split: if_splits)
qed

lemma commitJobs_all:
  assumes bk: "bucketsAll R Opt bk"
    and job: "\<And>htf l imf. Has rt TypeCommit \<or> Has rt TypeDiff \<Longrightarrow>
                (if ufd \<or> (if Has rt TypeDiff then Without rt TypeDiff = 0 else Without rt TypeCommit = 0)
                 then R (CommitSearch q ro (Has rt TypeDiff) htf l imf)
                 else Opt (CommitSearch q ro (Has rt TypeDiff) htf l imf))"
  shows "bucketsAll R Opt (commitJobs env q b rt p ro ufd bk)"
proof (cases "Has rt TypeCommit \<or> Has rt TypeDiff")
  case False
  with bk show ?thesis by (simp add: commitJobs_def)
next
  case True
  let ?j = "CommitSearch q ro (Has rt TypeDiff) (Exists env b ''after'' \<or> Exists env b ''before'')
              (FileMatchLimit p) (SubRepoEnabled env)"
  let ?req = "if ufd then True else if Has rt TypeDiff then Without rt TypeDiff = 0
              else Without rt TypeCommit = 0"
  from job [OF True] have "if ?req then R ?j else Opt ?j"
    by (auto split: if_splits)
  with bk have "bucketsAll R Opt (addJob ?req ?j bk)"
    by (intro bucketsAll_addJob) (auto split: if_splits)
  with True show ?thesis by (simp add: commitJobs_def Let_def)
qed

lemma structuralJobs_all:
  assumes run: "structuralJobs env q pt p f ro ufd only bk = Inr bk'"
    and bk: "bucketsAll R Opt bk"
    and job: "\<And>z. pt = SearchTypeStructural \<Longrightarrow> tpPattern p \<noteq> [] \<Longrightarrow>
                R (StructuralSearch z TextRequest (FileMatchLimit p) (Select p) p ufd (\<not> only)
                     (Index p) (ContainsRefGlobs env q) ro)"
  shows "bucketsAll R Opt bk'"
  using run bk job
  by (auto simp: structuralJobs_def bindE_eq_Inr intro!: bucketsAll_addJob split: if_splits)

lemma repoJobs_all:
  assumes bk: "bucketsAll R Opt bk"
    and job: "\<And>ro' m. Has rt TypeRepo \<Longrightarrow> valid q \<Longrightarrow>
                addPatternAsRepoFilter env q (tpPattern p) ro = Some ro' \<Longrightarrow>
                R (RepoSearch ro' f ufd q p m)"
  shows "bucketsAll R Opt (repoJobs env q rt p f ro ufd rus skip bk)"
  using bk job
  by (auto simp: repoJobs_def Let_def intro!: bucketsAll_addJob split: option.splits)

subsection \<open>The buckets of ToSearchJob\<close>

lemma searchJobs_all:
  assumes run: "searchJobs env inputs q b rt p mr = Inr bk"
    and glob: "\<And>z d ip. R (GlobalSearch z d ip TextRequest (FileMatchLimit p) (Select p)
                  (toRepoOptions env q (UserSettings inputs)))"
    and sym: "\<And>z d ip. R (RepoUniverseSymbolSearch z d ip SymbolRequest (FileMatchLimit p) (Select p)
                  p mr (toRepoOptions env q (UserSettings inputs)))"
    and tpager: "\<And>cs. cs = [] \<or> (\<exists>z. cs = [ZoektRepoSubsetSearch z TextRequest (FileMatchLimit p) (Select p)]) \<Longrightarrow>
                  R (repoPagerJob (ParallelJob (cs @ [Searcher p False (useFullDeadlineOf env inputs q)]))
                       (toRepoOptions env q (UserSettings inputs)) (Index p) (ContainsRefGlobs env q))"
    and spager: "\<And>cs. cs = [] \<or> (\<exists>z. cs = [ZoektSymbolSearch z (FileMatchLimit p) (Select p)]) \<Longrightarrow>
                  Has rt TypeSymbol \<Longrightarrow> tpPattern p \<noteq> [] \<Longrightarrow>
                  (if useFullDeadlineOf env inputs q \<or> Without rt TypeSymbol = 0
                   then R (repoPagerJob (ParallelJob (cs @ [SymbolSearcher p mr]))
                             (toRepoOptions env q (UserSettings inputs)) (Index p) (ContainsRefGlobs env q))
                   else Opt (repoPagerJob (ParallelJob (cs @ [SymbolSearcher p mr]))
                             (toRepoOptions env q (UserSettings inputs)) (Index p) (ContainsRefGlobs env q)))"
    and commit: "\<And>htf l imf. Has rt TypeCommit \<or> Has rt TypeDiff \<Longrightarrow>
                (if useFullDeadlineOf env inputs q \<or>
                    (if Has rt TypeDiff then Without rt TypeDiff = 0 else Without rt TypeCommit = 0)
                 then R (CommitSearch q (toRepoOptions env q (UserSettings inputs)) (Has rt TypeDiff) htf l imf)
                 else Opt (CommitSearch q (toRepoOptions env q (UserSettings inputs)) (Has rt TypeDiff) htf l imf))"
    and struct: "\<And>z nso. PatternType inputs = SearchTypeStructural \<Longrightarrow> tpPattern p \<noteq> [] \<Longrightarrow>
                R (StructuralSearch z TextRequest (FileMatchLimit p) (Select p) p
                     (useFullDeadlineOf env inputs q) nso (Index p) (ContainsRefGlobs env q)
                     (toRepoOptions env q (UserSettings inputs)))"
    and repo: "\<And>ro' m. Has rt TypeRepo \<Longrightarrow> valid q \<Longrightarrow>
                addPatternAsRepoFilter env q (tpPattern p) (toRepoOptions env q (UserSettings inputs)) = Some ro' \<Longrightarrow>
                R (RepoSearch ro' (toFeatures (Features inputs)) (useFullDeadlineOf env inputs q) q p m)"
  shows "\<exists>bk0. bk = addJob True (ComputeExcludedRepos (toRepoOptions env q (UserSettings inputs))) bk0
               \<and> bucketsAll R Opt bk0"
proof -
  let ?ufd = "useFullDeadlineOf env inputs q"
  let ?f = "toFeatures (Features inputs)"
  let ?ro = "toRepoOptions env q (UserSettings inputs)"
  obtain rus skip only where
    mode: "jobMode env b rt (PatternType inputs) (OnSourcegraphDotCom inputs) = (rus, skip, only)"
    by (cases "jobMode env b rt (PatternType inputs) (OnSourcegraphDotCom inputs)") auto
  from run mode obtain bk1 bk2 bk3 bk5 where
    b1: "universeJobs env rt p ?f ?ro mr rus ([], []) = Inr bk1"
    and b2: "textJobs env q rt p ?f ?ro ?ufd skip only bk1 = Inr bk2"
    and b3: "symbolJobs env q rt p ?f ?ro mr ?ufd skip only bk2 = Inr bk3"
    and b5: "structuralJobs env q (PatternType inputs) p ?f ?ro ?ufd only
               (commitJobs env q b rt p ?ro ?ufd bk3) = Inr bk5"
    and bk: "bk = addJob True (ComputeExcludedRepos ?ro)
                    (repoJobs env q rt p ?f ?ro ?ufd rus skip bk5)"
    by (auto simp: searchJobs_def useFullDeadlineOf_def Let_def bindE_eq_Inr)
  have i1: "bucketsAll R Opt bk1"
    by (rule universeJobs_all [OF b1 bucketsAll_empty glob sym])
  have i2: "bucketsAll R Opt bk2"
    by (rule textJobs_all [OF b2 i1 tpager])
  have i3: "bucketsAll R Opt bk3"
    by (rule symbolJobs_all [OF b3 i2 spager])
  have i4: "bucketsAll R Opt (commitJobs env q b rt p ?ro ?ufd bk3)"
    by (rule commitJobs_all [OF i3 commit])
  have i5: "bucketsAll R Opt bk5"
    by (rule structuralJobs_all [OF b5 i4 struct])
  have "bucketsAll R Opt (repoJobs env q rt p ?f ?ro ?ufd rus skip bk5)"
    by (rule repoJobs_all [OF i5 repo])
  with bk show ?thesis by blast
qed

text \<open>A successful ToSearchJob is the finished buckets of searchJobs.\<close>

lemma ToSearchJob_Inr:
  assumes "ToSearchJob env jargs q = (Inr job, jargs')"
  shows "\<exists>b bk. ToBasicQuery env q = Inr b
           \<and> jargs' = fst (patternFallback jargs (patternInfoOf env jargs q b))
           \<and> searchJobs env jargs' q b (resultTypesOf env jargs q b)
                 (snd (patternFallback jargs (patternInfoOf env jargs q b)))
                 (MaxResults env q (DefaultLimit env jargs)) = Inr bk
           \<and> job = finishJob env bk"
  using assms
  by (auto simp: ToSearchJob_def Let_def patternInfoOf_def resultTypesOf_def
        split: sum.splits prod.splits)

lemma finishJob_addJob:
  "finishJob env (addJob True j bk) =
     underFilter env (PriorityJob (ParallelJob (fst bk @ [j])) (ParallelJob (snd bk)))"
  by (cases bk)
     (simp add: finishJob_def addJob_def underFilter_def NewPriorityJob_def NewParallelJob_def
        NewFilterJob_def Let_def)

subsection \<open>Evaluation at the samples\<close>

lemmas sample_eval =
  ToSearchJob_def searchJobs_def finishJob_def sampleEnv_def sampleInputs_def sampleQuery_def
  sampleBasic_def param_def isParameterNode_def VisitParameter_def patternFallback_def Let_def
  jobMode_def isGlobalSearch_def ForAll_def globalNode_def ToNodes_def MapPattern_def
  universeJobs_def textJobs_def symbolJobs_def commitJobs_def structuralJobs_def
  repoJobs_def addJob_def bindE_def Has_def Without_def typeFromString_def
  valid_def fieldAllowlist_def addPatternAsRepoFilter_def SplitN2_def
  toFeatures_def toRepoOptions_def GetBoolOr_def
  ToEvaluateJob_def toPatternExpressionJob_def toAndJob_def toOrJob_def FromExpandedPlan_def
  NewParallelJob_def NewPriorityJob_def NewAndJob_def NewOrJob_def NewLimitJob_def
  NewTimeoutJob_def NewSelectJob_def NewFilterJob_def NewAlertJob_def NewNoopJob_def
  TypeRepo_def TypeSymbol_def TypeFile_def TypePath_def TypeDiff_def TypeCommit_def
  FieldRepo_def FieldContext_def FieldType_def FieldDefault_def FieldIndex_def FieldCount_def
  FieldTimeout_def FieldFork_def FieldArchived_def FieldVisibility_def FieldCase_def
  FieldRepoHasFile_def FieldRepoHasCommitAfter_def FieldPatternType_def FieldSelect_def
  FieldFile_def FieldLang_def
  resultTypesOf_def patternInfoOf_def useFullDeadlineOf_def

subsection \<open>ComputeExcludedRepos\<close>

lemma filter_concat_subJobs:
  "list_all (\<lambda>j. filter P (subJobs j) = []) js \<Longrightarrow> filter P (concat (map subJobs js)) = []"
  by (induction js) simp_all

text \<open>
  C9: whatever the result types, the strategy flags and the pattern are, a ToSearchJob
  that returns a job has put a ComputeExcludedRepos job last in the required bucket: the
  tree is Priority(Parallel(required), Parallel(optional)), under the filter when
  sub-repository permissions are enabled, the required list is not empty and ends with
  ComputeExcludedRepos, and the tree holds exactly one ComputeExcludedRepos job.
\<close>

theorem ToSearchJob_excluded:
  assumes "ToSearchJob env jargs q = (Inr job, jargs')"
  shows "\<exists>req opt ro.
           job = underFilter env (PriorityJob (ParallelJob req) (ParallelJob opt))
           \<and> req \<noteq> [] \<and> last req = ComputeExcludedRepos ro
           \<and> countExcluded job = 1"
proof -
  let ?none = "\<lambda>j::'a Job. filter isComputeExcludedRepos (subJobs j) = []"
  from ToSearchJob_Inr [OF assms] obtain b bk where
    run: "searchJobs env jargs' q b (resultTypesOf env jargs q b)
            (snd (patternFallback jargs (patternInfoOf env jargs q b)))
            (MaxResults env q (DefaultLimit env jargs)) = Inr bk"
    and job: "job = finishJob env bk"
    by blast
  have "\<exists>bk0. bk = addJob True (ComputeExcludedRepos (toRepoOptions env q (UserSettings jargs'))) bk0
              \<and> bucketsAll ?none ?none bk0"
    by (rule searchJobs_all [OF run])
       (auto simp: isComputeExcludedRepos_def split: if_splits)
  then obtain bk0 where
    bk: "bk = addJob True (ComputeExcludedRepos (toRepoOptions env q (UserSettings jargs'))) bk0"
    and none: "bucketsAll ?none ?none bk0"
    by blast
  let ?ro = "toRepoOptions env q (UserSettings jargs')"
  let ?req = "fst bk0 @ [ComputeExcludedRepos ?ro]"
  have shape: "job = underFilter env (PriorityJob (ParallelJob ?req) (ParallelJob (snd bk0)))"
    by (simp add: job bk finishJob_addJob)
  from none have r: "filter isComputeExcludedRepos (concat (map subJobs (fst bk0))) = []"
    and o: "filter isComputeExcludedRepos (concat (map subJobs (snd bk0))) = []"
    by (simp_all add: bucketsAll_def filter_concat_subJobs)
  have "countExcluded job = 1"
    by (simp add: shape countExcluded_def underFilter_def r o isComputeExcludedRepos_def)
  with shape show ?thesis by (intro exI [of _ ?req] exI [of _ "snd bk0"] exI [of _ ?ro]) simp
qed

theorem ToSearchJob_excluded_witness:
  "\<exists>job. fst (ToSearchJob sampleEnv sampleInputs sampleQuery) = Inr job \<and> countExcluded job = 1"
proof -
  have "\<exists>job jargs'. ToSearchJob sampleEnv sampleInputs sampleQuery = (Inr job, jargs')"
    by (simp add: sample_eval)
  then obtain job jargs' where run: "ToSearchJob sampleEnv sampleInputs sampleQuery = (Inr job, jargs')"
    by blast
  from ToSearchJob_excluded [OF run] have "countExcluded job = 1" by blast
  with run show ?thesis by simp
qed

subsection \<open>Required and optional jobs\<close>







subsection \<open>When the translations succeed, ToSearchJob returns a job\<close>

lemma isOK_Inr: "isOK r \<longleftrightarrow> (\<exists>x. r = Inr x)"
  by (cases r) (simp_all add: isOK_def)

lemma universeJobs_ok:
  assumes "isOK (DefaultGlobalQueryScope env ro)"
    and "isOK (QueryToZoektQuery env p f TextRequest)"
    and "isOK (QueryToZoektQuery env p f SymbolRequest)"
  shows "isOK (universeJobs env rt p f ro mr rus bk)"
  using assms by (auto simp: isOK_Inr universeJobs_def bindE_def Let_def)

lemma textJobs_ok:
  assumes "isOK (QueryToZoektQuery env p f TextRequest)"
  shows "isOK (textJobs env q rt p f ro ufd skip only bk)"
  using assms by (auto simp: isOK_Inr textJobs_def bindE_def)

lemma symbolJobs_ok:
  assumes "isOK (QueryToZoektQuery env p f SymbolRequest)"
  shows "isOK (symbolJobs env q rt p f ro mr ufd skip only bk)"
  using assms by (auto simp: isOK_Inr symbolJobs_def bindE_def Let_def)

lemma structuralJobs_ok:
  assumes "isOK (QueryToZoektQuery env p f TextRequest)"
  shows "isOK (structuralJobs env q pt p f ro ufd only bk)"
  using assms by (auto simp: isOK_Inr structuralJobs_def bindE_def)

lemma searchJobs_ok:
  assumes scope: "isOK (DefaultGlobalQueryScope env (toRepoOptions env q (UserSettings inputs)))"
    and zt: "isOK (QueryToZoektQuery env p (toFeatures (Features inputs)) TextRequest)"
    and zs: "isOK (QueryToZoektQuery env p (toFeatures (Features inputs)) SymbolRequest)"
  shows "isOK (searchJobs env inputs q b rt p mr)"
proof -
  let ?ufd = "useFullDeadlineOf env inputs q"
  let ?f = "toFeatures (Features inputs)"
  let ?ro = "toRepoOptions env q (UserSettings inputs)"
  obtain rus skip only where
    mode: "jobMode env b rt (PatternType inputs) (OnSourcegraphDotCom inputs) = (rus, skip, only)"
    by (cases "jobMode env b rt (PatternType inputs) (OnSourcegraphDotCom inputs)") auto
  obtain bk1 where b1: "universeJobs env rt p ?f ?ro mr rus ([], []) = Inr bk1"
    using universeJobs_ok [OF scope zt zs, of rt mr rus "([], [])"] unfolding isOK_Inr by blast
  obtain bk2 where b2: "textJobs env q rt p ?f ?ro ?ufd skip only bk1 = Inr bk2"
    using textJobs_ok [OF zt, of q rt ?ro ?ufd skip only bk1] unfolding isOK_Inr by blast
  obtain bk3 where b3: "symbolJobs env q rt p ?f ?ro mr ?ufd skip only bk2 = Inr bk3"
    using symbolJobs_ok [OF zs, of q rt ?ro mr ?ufd skip only bk2] unfolding isOK_Inr by blast
  obtain bk5 where b5: "structuralJobs env q (PatternType inputs) p ?f ?ro ?ufd only
               (commitJobs env q b rt p ?ro ?ufd bk3) = Inr bk5"
    using structuralJobs_ok [OF zt, of q "PatternType inputs" ?ro ?ufd only
            "commitJobs env q b rt p ?ro ?ufd bk3"]
    unfolding isOK_Inr by blast
  show ?thesis
    using mode b1 b2 b3 b5
    by (simp add: searchJobs_def useFullDeadlineOf_def Let_def bindE_Inr isOK_def)
qed

lemma patternFallback_settings:
  "Features (fst (patternFallback jargs p)) = Features jargs"
  "UserSettings (fst (patternFallback jargs p)) = UserSettings jargs"
  "Protocol (fst (patternFallback jargs p)) = Protocol jargs"
  "OnSourcegraphDotCom (fst (patternFallback jargs p)) = OnSourcegraphDotCom jargs"
  by (simp_all add: patternFallback_def)

lemma translates_returns:
  assumes "translates env jargs q"
  shows "\<exists>b job. ToBasicQuery env q = Inr b
           \<and> ToSearchJob env jargs q = (Inr job, fst (patternFallback jargs (patternInfoOf env jargs q b)))"
proof -
  from assms obtain b where
    basic: "ToBasicQuery env q = Inr b"
    and scope: "isOK (DefaultGlobalQueryScope env (toRepoOptions env q (UserSettings jargs)))"
    and zt: "isOK (QueryToZoektQuery env (snd (patternFallback jargs (patternInfoOf env jargs q b)))
                   (toFeatures (Features jargs)) TextRequest)"
    and zs: "isOK (QueryToZoektQuery env (snd (patternFallback jargs (patternInfoOf env jargs q b)))
                   (toFeatures (Features jargs)) SymbolRequest)"
    by (auto simp: translates_def split: sum.splits)
  let ?fb = "patternFallback jargs (patternInfoOf env jargs q b)"
  have "isOK (searchJobs env (fst ?fb) q b (resultTypesOf env jargs q b) (snd ?fb)
                (MaxResults env q (DefaultLimit env jargs)))"
    by (rule searchJobs_ok) (simp_all add: patternFallback_settings scope zt zs)
  then obtain bk where
    "searchJobs env (fst ?fb) q b (resultTypesOf env jargs q b) (snd ?fb)
       (MaxResults env q (DefaultLimit env jargs)) = Inr bk"
    by (auto simp: isOK_Inr)
  with basic have "ToSearchJob env jargs q = (Inr (finishJob env bk), fst ?fb)"
    by (simp add: ToSearchJob_def Let_def patternInfoOf_def resultTypesOf_def case_prod_beta)
  with basic show ?thesis by blast
qed

subsection \<open>The errors of ToSearchJob are errors of the translations\<close>

lemma bindE_eq_Inl: "bindE m f = Inl err \<longleftrightarrow> m = Inl err \<or> (\<exists>x. m = Inr x \<and> f x = Inl err)"
  by (cases m) (simp_all add: bindE_def)

lemma universeJobs_err:
  assumes "universeJobs env rt p f ro mr rus bk = Inl err"
  shows "DefaultGlobalQueryScope env ro = Inl err
         \<or> QueryToZoektQuery env p f TextRequest = Inl err
         \<or> QueryToZoektQuery env p f SymbolRequest = Inl err"
  using assms
  by (auto simp: universeJobs_def bindE_eq_Inl Let_def split: if_splits)

lemma textJobs_err:
  assumes "textJobs env q rt p f ro ufd skip only bk = Inl err"
  shows "QueryToZoektQuery env p f TextRequest = Inl err"
  using assms by (auto simp: textJobs_def bindE_eq_Inl split: if_splits)

lemma symbolJobs_err:
  assumes "symbolJobs env q rt p f ro mr ufd skip only bk = Inl err"
  shows "QueryToZoektQuery env p f SymbolRequest = Inl err"
  using assms by (auto simp: symbolJobs_def bindE_eq_Inl Let_def split: if_splits)

lemma structuralJobs_err:
  assumes "structuralJobs env q pt p f ro ufd only bk = Inl err"
  shows "QueryToZoektQuery env p f TextRequest = Inl err"
  using assms by (auto simp: structuralJobs_def bindE_eq_Inl split: if_splits)

lemma searchJobs_err:
  assumes "searchJobs env inputs q b rt p mr = Inl err"
  shows "DefaultGlobalQueryScope env (toRepoOptions env q (UserSettings inputs)) = Inl err
         \<or> QueryToZoektQuery env p (toFeatures (Features inputs)) TextRequest = Inl err
         \<or> QueryToZoektQuery env p (toFeatures (Features inputs)) SymbolRequest = Inl err"
proof -
  obtain rus skip only where
    mode: "jobMode env b rt (PatternType inputs) (OnSourcegraphDotCom inputs) = (rus, skip, only)"
    by (cases "jobMode env b rt (PatternType inputs) (OnSourcegraphDotCom inputs)") auto
  from assms mode show ?thesis
    by (auto simp: searchJobs_def Let_def bindE_eq_Inl
          dest: universeJobs_err textJobs_err symbolJobs_err structuralJobs_err)
qed

lemma ToSearchJob_Inl:
  assumes "fst (ToSearchJob env jargs q) = Inl err"
  shows "err \<in> set (translationErrors env jargs q)"
proof (cases "ToBasicQuery env q")
  case (Inl e)
  with assms show ?thesis
    by (simp add: ToSearchJob_def translationErrors_def Let_def)
next
  case (Inr b)
  let ?fb = "patternFallback jargs (patternInfoOf env jargs q b)"
  from assms Inr have "searchJobs env (fst ?fb) q b (resultTypesOf env jargs q b) (snd ?fb)
                         (MaxResults env q (DefaultLimit env jargs)) = Inl err"
    by (auto simp: ToSearchJob_def Let_def patternInfoOf_def resultTypesOf_def case_prod_beta
          split: sum.splits)
  from searchJobs_err [OF this] Inr show ?thesis
    by (auto simp: translationErrors_def errorOf_def patternFallback_settings)
qed

subsection \<open>The allow-list of repository search\<close>

lemma valid_iff: "valid q \<longleftrightarrow> (\<forall>p \<in> set (VisitParameter q). Field p \<in> set fieldAllowlist)"
proof -
  have "\<And>acc. fold (\<lambda>p exists. if Field p \<notin> set fieldAllowlist then False else exists) ps acc
          \<longleftrightarrow> acc \<and> (\<forall>p \<in> set ps. Field p \<in> set fieldAllowlist)" for ps :: "Parameter list"
    by (induction ps) auto
  then show ?thesis by (simp add: valid_def)
qed

lemma all_concat_subJobs:
  "list_all (\<lambda>j. \<forall>x \<in> set (subJobs j). X x) js \<Longrightarrow> \<forall>x \<in> set (concat (map subJobs js)). X x"
  by (induction js) auto

lemma subJobs_finished:
  assumes "bucketsAll (\<lambda>j. \<forall>x \<in> set (subJobs j). X x) (\<lambda>j. \<forall>x \<in> set (subJobs j). X x) bk0"
    and "X (ComputeExcludedRepos ro)"
    and "\<And>a b. X (PriorityJob a b)" and "\<And>js. X (ParallelJob js)" and "\<And>j. X (FilterJob j)"
  shows "\<forall>x \<in> set (subJobs (finishJob env (addJob True (ComputeExcludedRepos ro) bk0))). X x"
proof -
  from assms(1) have "\<forall>x \<in> set (concat (map subJobs (fst bk0))). X x"
    and "\<forall>x \<in> set (concat (map subJobs (snd bk0))). X x"
    by (auto simp: bucketsAll_def list_all_iff)
  with assms(2-) show ?thesis
    by (auto simp: finishJob_addJob underFilter_def)
qed

lemma repoSearch_valid:
  assumes run: "ToSearchJob env jargs q = (Inr job, jargs')"
    and has: "list_ex isRepoSearch (subJobs job)"
  shows "\<forall>p \<in> set (VisitParameter q). Field p \<in> set fieldAllowlist"
proof -
  let ?X = "\<lambda>x::'a Job. isRepoSearch x \<longrightarrow> valid q"
  let ?R = "\<lambda>j::'a Job. \<forall>x \<in> set (subJobs j). ?X x"
  from ToSearchJob_Inr [OF run] obtain b bk where
    sj: "searchJobs env jargs' q b (resultTypesOf env jargs q b)
          (snd (patternFallback jargs (patternInfoOf env jargs q b)))
          (MaxResults env q (DefaultLimit env jargs)) = Inr bk"
    and job: "job = finishJob env bk"
    by blast
  have "\<exists>bk0. bk = addJob True (ComputeExcludedRepos (toRepoOptions env q (UserSettings jargs'))) bk0
              \<and> bucketsAll ?R ?R bk0"
    by (rule searchJobs_all [OF sj]) (auto simp: isRepoSearch_def split: if_splits)
  then obtain bk0 where
    bk: "bk = addJob True (ComputeExcludedRepos (toRepoOptions env q (UserSettings jargs'))) bk0"
    and all: "bucketsAll ?R ?R bk0"
    by blast
  have "\<forall>x \<in> set (subJobs job). ?X x"
    unfolding job bk by (rule subJobs_finished [OF all]) (simp_all add: isRepoSearch_def)
  with has have "valid q" by (auto simp: list_ex_iff)
  then show ?thesis by (simp add: valid_iff)
qed

text \<open>
  C5: a job ToSearchJob returns holds a RepoSearch job only if the field of every
  parameter of the query is on the allow-list (repo, context, type, the default field,
  index, count, timeout, fork, archived, visibility, case, repohasfile,
  repohascommitafter, patterntype, select). When some parameter has a field that is
  not on the list, a job ToSearchJob returns holds no RepoSearch job, and an error it
  returns is an error that a translation of the query by another package returned: the
  skipped repository search is no error. When those translations succeed, ToSearchJob
  returns a job.
\<close>

theorem ToSearchJob_repo_allowlist:
  "(\<forall>job jargs'. ToSearchJob env jargs q = (Inr job, jargs') \<and> list_ex isRepoSearch (subJobs job)
       \<longrightarrow> (\<forall>p \<in> set (VisitParameter q). Field p \<in> set fieldAllowlist))
   \<and> ((\<exists>p \<in> set (VisitParameter q). Field p \<notin> set fieldAllowlist)
       \<longrightarrow> (case fst (ToSearchJob env jargs q) of
              Inr job \<Rightarrow> \<not> list_ex isRepoSearch (subJobs job)
            | Inl err \<Rightarrow> err \<in> set (translationErrors env jargs q))
           \<and> (translates env jargs q \<longrightarrow> isOK (fst (ToSearchJob env jargs q))))"
proof (intro conjI allI impI)
  fix job jargs'
  assume "ToSearchJob env jargs q = (Inr job, jargs') \<and> list_ex isRepoSearch (subJobs job)"
  then show "\<forall>p \<in> set (VisitParameter q). Field p \<in> set fieldAllowlist"
    by (auto dest: repoSearch_valid)
next
  assume off: "\<exists>p \<in> set (VisitParameter q). Field p \<notin> set fieldAllowlist"
  show "case fst (ToSearchJob env jargs q) of
          Inr job \<Rightarrow> \<not> list_ex isRepoSearch (subJobs job)
        | Inl err \<Rightarrow> err \<in> set (translationErrors env jargs q)"
  proof (cases "fst (ToSearchJob env jargs q)")
    case (Inl err)
    then show ?thesis by (simp add: ToSearchJob_Inl)
  next
    case (Inr job)
    then have run: "ToSearchJob env jargs q = (Inr job, snd (ToSearchJob env jargs q))"
      by (cases "ToSearchJob env jargs q") simp
    have "\<not> list_ex isRepoSearch (subJobs job)"
    proof
      assume "list_ex isRepoSearch (subJobs job)"
      from repoSearch_valid [OF run this] off show False by blast
    qed
    with Inr show ?thesis by simp
  qed
next
  assume "translates env jargs q"
  from translates_returns [OF this] show "isOK (fst (ToSearchJob env jargs q))"
    by (auto simp: isOK_def)
qed

theorem ToSearchJob_repo_allowlist_witness:
  "(\<exists>job. fst (ToSearchJob sampleEnv sampleInputs sampleLangQuery) = Inr job
        \<and> \<not> list_ex isRepoSearch (subJobs job))
   \<and> (\<exists>job. fst (ToSearchJob sampleEnv sampleInputs sampleRepoQuery) = Inr job
        \<and> list_ex isRepoSearch (subJobs job))
   \<and> list_all (\<lambda>p. Field p \<in> set fieldAllowlist) (VisitParameter sampleRepoQuery)"
proof -
  have off: "\<exists>p \<in> set (VisitParameter sampleLangQuery). Field p \<notin> set fieldAllowlist"
    by (simp add: sampleLangQuery_def sample_eval)
  have tr: "translates sampleEnv sampleInputs sampleLangQuery"
    by (simp add: translates_def isOK_def sampleLangQuery_def sample_eval)
  have "\<exists>job jargs'. ToSearchJob sampleEnv sampleInputs sampleRepoQuery = (Inr job, jargs')
           \<and> list_ex isRepoSearch (subJobs job)"
    by (simp add: sampleRepoQuery_def isRepoSearch_def sample_eval)
  then obtain job jargs' where
    run: "ToSearchJob sampleEnv sampleInputs sampleRepoQuery = (Inr job, jargs')"
    and has: "list_ex isRepoSearch (subJobs job)"
    by blast
  have one: "\<forall>job jargs'. ToSearchJob sampleEnv sampleInputs sampleRepoQuery = (Inr job, jargs')
                \<and> list_ex isRepoSearch (subJobs job)
              \<longrightarrow> (\<forall>p \<in> set (VisitParameter sampleRepoQuery). Field p \<in> set fieldAllowlist)"
    by (rule conjunct1 [OF ToSearchJob_repo_allowlist])
  have two: "(\<exists>p \<in> set (VisitParameter sampleLangQuery). Field p \<notin> set fieldAllowlist)
              \<longrightarrow> (case fst (ToSearchJob sampleEnv sampleInputs sampleLangQuery) of
                     Inr job \<Rightarrow> \<not> list_ex isRepoSearch (subJobs job)
                   | Inl err \<Rightarrow> err \<in> set (translationErrors sampleEnv sampleInputs sampleLangQuery))
                  \<and> (translates sampleEnv sampleInputs sampleLangQuery
                       \<longrightarrow> isOK (fst (ToSearchJob sampleEnv sampleInputs sampleLangQuery)))"
    by (rule conjunct2 [OF ToSearchJob_repo_allowlist])
  from one run has have a: "\<forall>p \<in> set (VisitParameter sampleRepoQuery). Field p \<in> set fieldAllowlist"
    by blast
  from two off tr
  have c2: "case fst (ToSearchJob sampleEnv sampleInputs sampleLangQuery) of
              Inr job \<Rightarrow> \<not> list_ex isRepoSearch (subJobs job)
            | Inl err \<Rightarrow> err \<in> set (translationErrors sampleEnv sampleInputs sampleLangQuery)"
    and ok2: "isOK (fst (ToSearchJob sampleEnv sampleInputs sampleLangQuery))"
    by blast+
  from ok2 obtain job2 where j2: "fst (ToSearchJob sampleEnv sampleInputs sampleLangQuery) = Inr job2"
    by (auto simp: isOK_Inr)
  with c2 have b: "\<exists>job. fst (ToSearchJob sampleEnv sampleInputs sampleLangQuery) = Inr job
        \<and> \<not> list_ex isRepoSearch (subJobs job)"
    by simp
  from run has have c: "\<exists>job. fst (ToSearchJob sampleEnv sampleInputs sampleRepoQuery) = Inr job
        \<and> list_ex isRepoSearch (subJobs job)"
    by simp
  from a have d: "list_all (\<lambda>p. Field p \<in> set fieldAllowlist) (VisitParameter sampleRepoQuery)"
    by (simp add: list_all_iff)
  from b c d show ?thesis by (intro conjI)
qed

subsection \<open>The fallback on an empty pattern\<close>

lemma ToSearchJob_snd:
  assumes "ToBasicQuery env q = Inr b"
  shows "snd (ToSearchJob env jargs q) = fst (patternFallback jargs (patternInfoOf env jargs q b))"
  using assms
  by (simp add: ToSearchJob_def Let_def patternInfoOf_def resultTypesOf_def case_prod_beta
        split: sum.split)

lemma empty_pattern_not_structural:
  assumes run: "ToSearchJob env jargs q = (Inr job, jargs')"
    and basic: "ToBasicQuery env q = Inr b"
    and empty: "tpPattern (patternInfoOf env jargs q b) = []"
  shows "\<not> list_ex structuralNode (subJobs job)"
proof -
  let ?p = "(patternInfoOf env jargs q b)\<lparr>IsStructuralPat := False\<rparr>"
  let ?lit = "jargs\<lparr>PatternType := SearchTypeLiteral\<rparr>"
  let ?X = "\<lambda>x::'a Job. \<not> structuralNode x"
  let ?R = "\<lambda>j::'a Job. \<forall>x \<in> set (subJobs j). ?X x"
  have fb: "patternFallback jargs (patternInfoOf env jargs q b) = (?lit, ?p)"
    using empty by (simp add: patternFallback_def)
  from ToSearchJob_Inr [OF run] basic obtain bk where
    sj: "searchJobs env ?lit q b (resultTypesOf env jargs q b) ?p
            (MaxResults env q (DefaultLimit env jargs)) = Inr bk"
    and job: "job = finishJob env bk"
    by (auto simp: fb)
  have p: "IsStructuralPat ?p = False" "tpPattern ?p = []"
    using empty by simp_all
  have "\<exists>bk0. bk = addJob True (ComputeExcludedRepos (toRepoOptions env q (UserSettings ?lit))) bk0
              \<and> bucketsAll ?R ?R bk0"
  proof (rule searchJobs_all [OF sj], goal_cases)
    case 1 show ?case by (simp add: structuralNode_def isStructuralSearch_def jobPatternInfo_def)
  next
    case 2 show ?case
      by (simp add: structuralNode_def isStructuralSearch_def jobPatternInfo_def)
  next
    case (3 cs) then show ?case
      by (auto simp: structuralNode_def isStructuralSearch_def jobPatternInfo_def)
  next
    case (4 cs) then show ?case using p by simp
  next
    case 5 show ?case
      by (simp add: structuralNode_def isStructuralSearch_def jobPatternInfo_def)
  next
    case 6 then show ?case by simp
  next
    case 7 show ?case
      by (simp add: structuralNode_def isStructuralSearch_def jobPatternInfo_def)
  qed
  then obtain bk0 where
    bk: "bk = addJob True (ComputeExcludedRepos (toRepoOptions env q (UserSettings ?lit))) bk0"
    and all: "bucketsAll ?R ?R bk0"
    by blast
  have "\<forall>x \<in> set (subJobs job). ?X x"
    unfolding job bk
    by (rule subJobs_finished [OF all])
       (simp_all add: structuralNode_def isStructuralSearch_def jobPatternInfo_def)
  then show ?thesis
    by (simp add: list_ex_iff)
qed

text \<open>
  C6: when the pattern of the computed pattern info is empty (for a structural search
  as for any other), ToSearchJob does not fail on it. It leaves the pattern type of the
  search inputs at literal and goes on: a job it returns holds no structural search and
  no pattern info with the structural flag set, and an error it returns is an error that
  a translation of the query by another package returned. When those translations
  succeed, ToSearchJob returns a job.
\<close>

theorem ToSearchJob_empty_pattern:
  assumes basic: "ToBasicQuery env q = Inr b"
    and empty: "tpPattern (patternInfoOf env jargs q b) = []"
  shows "snd (ToSearchJob env jargs q) = jargs\<lparr>PatternType := SearchTypeLiteral\<rparr>
         \<and> (case fst (ToSearchJob env jargs q) of
               Inr job \<Rightarrow> \<not> list_ex structuralNode (subJobs job)
             | Inl err \<Rightarrow> err \<in> set (translationErrors env jargs q))
         \<and> (translates env jargs q \<longrightarrow> isOK (fst (ToSearchJob env jargs q)))"
proof (intro conjI impI)
  show "snd (ToSearchJob env jargs q) = jargs\<lparr>PatternType := SearchTypeLiteral\<rparr>"
    using empty by (simp add: ToSearchJob_snd [OF basic] patternFallback_def)
next
  show "case fst (ToSearchJob env jargs q) of
          Inr job \<Rightarrow> \<not> list_ex structuralNode (subJobs job)
        | Inl err \<Rightarrow> err \<in> set (translationErrors env jargs q)"
  proof (cases "fst (ToSearchJob env jargs q)")
    case (Inl err)
    then show ?thesis by (simp add: ToSearchJob_Inl)
  next
    case (Inr job)
    then have "ToSearchJob env jargs q = (Inr job, snd (ToSearchJob env jargs q))"
      by (cases "ToSearchJob env jargs q") simp
    from empty_pattern_not_structural [OF this basic empty] Inr show ?thesis
      by simp
  qed
next
  assume "translates env jargs q"
  from translates_returns [OF this] show "isOK (fst (ToSearchJob env jargs q))"
    by (auto simp: isOK_def)
qed

theorem ToSearchJob_empty_pattern_witness:
  "\<exists>job. ToSearchJob sampleEnv structuralInputs sampleRepoQuery = (Inr job, sampleInputs)
         \<and> \<not> list_ex structuralNode (subJobs job)"
proof -
  let ?b = "\<lparr>Parameters = [param ''repo'' ''bar''], Pattern = None\<rparr>"
  have basic: "ToBasicQuery sampleEnv sampleRepoQuery = Inr ?b"
    by (simp add: sampleRepoQuery_def sample_eval)
  have empty: "tpPattern (patternInfoOf sampleEnv structuralInputs sampleRepoQuery ?b) = []"
    by (simp add: sampleRepoQuery_def structuralInputs_def sample_eval)
  have tr: "translates sampleEnv structuralInputs sampleRepoQuery"
    by (simp add: translates_def isOK_def sampleRepoQuery_def structuralInputs_def sample_eval)
  have lit: "structuralInputs\<lparr>PatternType := SearchTypeLiteral\<rparr> = sampleInputs"
    by (simp add: structuralInputs_def sampleInputs_def)
  from ToSearchJob_empty_pattern [OF basic empty] tr
  have s: "snd (ToSearchJob sampleEnv structuralInputs sampleRepoQuery) = sampleInputs"
    and c: "case fst (ToSearchJob sampleEnv structuralInputs sampleRepoQuery) of
               Inr job \<Rightarrow> \<not> list_ex structuralNode (subJobs job)
             | Inl err \<Rightarrow> err \<in> set (translationErrors sampleEnv structuralInputs sampleRepoQuery)"
    and ok: "isOK (fst (ToSearchJob sampleEnv structuralInputs sampleRepoQuery))"
    by (simp_all only: lit)
  from ok obtain job where j: "fst (ToSearchJob sampleEnv structuralInputs sampleRepoQuery) = Inr job"
    by (auto simp: isOK_Inr)
  with c have "\<not> list_ex structuralNode (subJobs job)" by simp
  moreover from j s have "ToSearchJob sampleEnv structuralInputs sampleRepoQuery = (Inr job, sampleInputs)"
    by (cases "ToSearchJob sampleEnv structuralInputs sampleRepoQuery") simp
  ultimately show ?thesis by blast
qed

subsection \<open>jobMode\<close>

lemma globalNode_nodesOf:
  "list_all (globalNode env) (nodesOf n) \<longleftrightarrow> (\<forall>p \<in> set (parametersOf n). \<not> repoScoping env p)"
proof (induction n)
  case (PatternNode v n a)
  show ?case by (simp add: globalNode_def)
next
  case (ParameterNode p)
  show ?case
    by (auto simp: globalNode_def repoScoping_def FieldContext_def FieldRepo_def FieldRepoHasFile_def)
next
  case (OperatorNode k ops a)
  then show ?case
    by (auto simp: globalNode_def list_all_iff)
qed

lemma ForAll_globalNode:
  "ForAll q (globalNode env) \<longleftrightarrow> (\<forall>p \<in> set (VisitParameter q). \<not> repoScoping env p)"
proof -
  have "ForAll q (globalNode env) \<longleftrightarrow> (\<forall>n \<in> set q. list_all (globalNode env) (nodesOf n))"
    by (auto simp: ForAll_def list_all_iff)
  also have "\<dots> \<longleftrightarrow> (\<forall>n \<in> set q. \<forall>p \<in> set (parametersOf n). \<not> repoScoping env p)"
    by (simp add: globalNode_nodesOf)
  also have "\<dots> \<longleftrightarrow> (\<forall>p \<in> set (VisitParameter q). \<not> repoScoping env p)"
    by (auto simp: VisitParameter_def)
  finally show ?thesis .
qed

lemma Has_OR: "Has r (s OR t) \<longleftrightarrow> Has r s \<or> Has r t"
  by (simp add: Has_def bit.conj_disj_distrib or_eq_0_iff)

text \<open>
  C2, as the code has it: jobMode selects the search over all indexed repositories
  exactly when the search type is not structural, no parameter of the parse tree scopes
  the repositories (a search context other than the global one, a \<^verbatim>\<open>repo:\<close> filter that
  is not negated, a \<^verbatim>\<open>repohasfile:\<close> filter), the index is not disabled, one of the
  result types file, path and symbol is requested, and the pattern is not empty or a
  \<^verbatim>\<open>file:\<close> or \<^verbatim>\<open>lang:\<close> filter exists.
\<close>

theorem jobMode_universe:
  "fst (jobMode env b rt st dotcom) \<longleftrightarrow>
     st \<noteq> SearchTypeStructural
     \<and> (\<forall>p \<in> set (VisitParameter (ToParseTree env b)). \<not> repoScoping env p)
     \<and> BIndex env b \<noteq> No
     \<and> (Has rt TypeFile \<or> Has rt TypePath \<or> Has rt TypeSymbol)
     \<and> (PatternString env b \<noteq> [] \<or> Exists env b FieldFile \<or> Exists env b FieldLang)"
  by (auto simp: jobMode_def Let_def isGlobalSearch_def ForAll_globalNode Has_OR)

theorem jobMode_universe_witness:
  "fst (jobMode sampleEnv \<lparr>Parameters = [param ''type'' ''file''], Pattern = Some (PatternNode ''foo'' False 0)\<rparr>
          TypeFile SearchTypeLiteral False)
   \<and> \<not> fst (jobMode sampleEnv sampleBasic (TypeFile OR TypeSymbol) SearchTypeLiteral False)"
  using jobMode_universe [of sampleEnv
          "\<lparr>Parameters = [param ''type'' ''file''], Pattern = Some (PatternNode ''foo'' False 0)\<rparr>"
          TypeFile SearchTypeLiteral False]
        jobMode_universe [of sampleEnv sampleBasic "TypeFile OR TypeSymbol" SearchTypeLiteral False]
  by (simp add: repoScoping_def sampleEnv_def sampleBasic_def param_def VisitParameter_def
        ToNodes_def Has_def TypeFile_def TypePath_def TypeSymbol_def FieldContext_def FieldRepo_def
        FieldRepoHasFile_def FieldFile_def FieldLang_def)

text \<open>
  C2 as stated fails. The query \<^verbatim>\<open>fork:yes\<close> has no parameter that scopes the
  repositories, asks for files, paths and repositories, and leaves the index enabled, yet
  the search over all indexed repositories is not selected, since the pattern is empty
  and there is no \<^verbatim>\<open>file:\<close> or \<^verbatim>\<open>lang:\<close> filter. The query \<^verbatim>\<open>foo\<close> under the structural
  search type is not selected either.
\<close>

theorem jobMode_universe_counterexample:
  "list_all (\<lambda>p. \<not> repoScoping sampleEnv p)
      (VisitParameter (ToParseTree sampleEnv \<lparr>Parameters = [param ''fork'' ''yes''], Pattern = None\<rparr>))
   \<and> Has (TypeFile OR TypePath OR TypeRepo) (TypeFile OR TypePath OR TypeSymbol)
   \<and> BIndex sampleEnv \<lparr>Parameters = [param ''fork'' ''yes''], Pattern = None\<rparr> \<noteq> No
   \<and> \<not> fst (jobMode sampleEnv \<lparr>Parameters = [param ''fork'' ''yes''], Pattern = None\<rparr>
              (TypeFile OR TypePath OR TypeRepo) SearchTypeLiteral False)
   \<and> list_all (\<lambda>p. \<not> repoScoping sampleEnv p)
      (VisitParameter (ToParseTree sampleEnv \<lparr>Parameters = [], Pattern = Some (PatternNode ''foo'' False 64)\<rparr>))
   \<and> \<not> fst (jobMode sampleEnv \<lparr>Parameters = [], Pattern = Some (PatternNode ''foo'' False 64)\<rparr>
              TypeFile SearchTypeStructural False)"
  by (simp add: repoScoping_def sample_eval)

subsection \<open>toAndJob and toOrJob\<close>

lemma compiledInTurn_length: "compiledInTurn f args xs ys args' \<Longrightarrow> length ys = length xs"
  by (induction rule: compiledInTurn.induct) simp_all

lemma toPatternExpressionJob_MapPattern:
  "toPatternExpressionJob env args (MapPattern q operand)
     = toPatternExpressionNode env args (Parameters q) operand"
  by (simp add: toPatternExpressionJob_def MapPattern_def)

lemma andOperands_turn:
  "andOperands env args ps ops = (Inr js, args') \<longleftrightarrow>
     (\<exists>ks. compiledInTurn (\<lambda>a n. toPatternExpressionNode env a ps n) args ops ks args'
            \<and> js = map (LimitJob 40000) ks)"
proof
  show "andOperands env args ps ops = (Inr js, args') \<Longrightarrow>
     \<exists>ks. compiledInTurn (\<lambda>a n. toPatternExpressionNode env a ps n) args ops ks args'
            \<and> js = map (LimitJob 40000) ks"
  proof (induction ops arbitrary: args js)
    case Nil
    then show ?case by (auto intro: turnNil)
  next
    case (Cons x xs)
    from Cons.prems obtain operand args1 operands where
      x: "toPatternExpressionNode env args ps x = (Inr operand, args1)"
      and xs: "andOperands env args1 ps xs = (Inr operands, args')"
      and js: "js = LimitJob 40000 operand # operands"
      by (auto simp: NewLimitJob_def split: prod.splits sum.splits)
    from Cons.IH [OF xs] obtain ks where
      "compiledInTurn (\<lambda>a n. toPatternExpressionNode env a ps n) args1 xs ks args'"
      and "operands = map (LimitJob 40000) ks"
      by blast
    with x js show ?case
      by (intro exI [of _ "operand # ks"]) (auto intro: turnCons)
  qed
next
  assume "\<exists>ks. compiledInTurn (\<lambda>a n. toPatternExpressionNode env a ps n) args ops ks args'
            \<and> js = map (LimitJob 40000) ks"
  then obtain ks where
    turn: "compiledInTurn (\<lambda>a n. toPatternExpressionNode env a ps n) args ops ks args'"
    and js: "js = map (LimitJob 40000) ks"
    by blast
  from turn have "andOperands env args ps ops = (Inr (map (LimitJob 40000) ks), args')"
    by (induction rule: compiledInTurn.induct) (simp_all add: NewLimitJob_def)
  with js show "andOperands env args ps ops = (Inr js, args')" by simp
qed

lemma orOperands_turn:
  "orOperands env args ps ops = (Inr js, args') \<longleftrightarrow>
     compiledInTurn (\<lambda>a n. toPatternExpressionNode env a ps n) args ops js args'"
proof
  show "orOperands env args ps ops = (Inr js, args') \<Longrightarrow>
     compiledInTurn (\<lambda>a n. toPatternExpressionNode env a ps n) args ops js args'"
  proof (induction ops arbitrary: args js)
    case Nil
    then show ?case by (auto intro: turnNil)
  next
    case (Cons x xs)
    from Cons.prems obtain operand args1 operands where
      x: "toPatternExpressionNode env args ps x = (Inr operand, args1)"
      and xs: "orOperands env args1 ps xs = (Inr operands, args')"
      and js: "js = operand # operands"
      by (auto split: prod.splits sum.splits)
    from Cons.IH [OF xs] x js show ?case
      by (auto intro: turnCons)
  qed
next
  show "compiledInTurn (\<lambda>a n. toPatternExpressionNode env a ps n) args ops js args' \<Longrightarrow>
     orOperands env args ps ops = (Inr js, args')"
    by (induction rule: compiledInTurn.induct) simp_all
qed

text \<open>
  The shape of the jobs of toAndJob and toOrJob. For a basic query whose pattern is an
  And operator with operands \<open>ops\<close>, toAndJob returns a job exactly when every operand
  compiles, each by its own call of toPatternExpressionJob on the query with that operand
  as its pattern, in order, from the search inputs the operand before left; the job is
  then one And node over the operands' jobs, each under a Limit of 40000, as many as
  there are operands. For an Or operator, toOrJob returns, under the same condition, one
  Or node over the operands' jobs themselves, with no Limit.
\<close>

lemma toAndJob_toOrJob_shape:
  "(Pattern q = Some (OperatorNode And ops ann) \<longrightarrow>
      (toAndJob env args q = (Inr job, args') \<longleftrightarrow>
         (\<exists>js. compiledInTurn (\<lambda>a operand. toPatternExpressionJob env a (MapPattern q operand))
                  args ops js args'
               \<and> length js = length ops
               \<and> job = AndJob (map (LimitJob 40000) js))))
   \<and> (Pattern q = Some (OperatorNode Or ops ann) \<longrightarrow>
      (toOrJob env args q = (Inr job, args') \<longleftrightarrow>
         (\<exists>js. compiledInTurn (\<lambda>a operand. toPatternExpressionJob env a (MapPattern q operand))
                  args ops js args'
               \<and> length js = length ops
               \<and> job = OrJob js)))"
proof (intro conjI impI)
  assume q: "Pattern q = Some (OperatorNode And ops ann)"
  have "toAndJob env args q = (Inr job, args') \<longleftrightarrow>
          (\<exists>js. andOperands env args (Parameters q) ops = (Inr js, args') \<and> job = AndJob js)"
    by (auto simp: toAndJob_def q NewAndJob_def split: prod.splits sum.splits)
  also have "\<dots> \<longleftrightarrow>
          (\<exists>js. compiledInTurn (\<lambda>a n. toPatternExpressionNode env a (Parameters q) n) args ops js args'
               \<and> length js = length ops
               \<and> job = AndJob (map (LimitJob 40000) js))"
    by (auto simp: andOperands_turn dest: compiledInTurn_length)
  finally show "toAndJob env args q = (Inr job, args') \<longleftrightarrow>
         (\<exists>js. compiledInTurn (\<lambda>a operand. toPatternExpressionJob env a (MapPattern q operand))
                  args ops js args'
               \<and> length js = length ops
               \<and> job = AndJob (map (LimitJob 40000) js))"
    by (simp add: toPatternExpressionJob_MapPattern)
next
  assume q: "Pattern q = Some (OperatorNode Or ops ann)"
  have "toOrJob env args q = (Inr job, args') \<longleftrightarrow>
          (\<exists>js. orOperands env args (Parameters q) ops = (Inr js, args') \<and> job = OrJob js)"
    by (auto simp: toOrJob_def q NewOrJob_def split: prod.splits sum.splits)
  also have "\<dots> \<longleftrightarrow>
          (\<exists>js. compiledInTurn (\<lambda>a n. toPatternExpressionNode env a (Parameters q) n) args ops js args'
               \<and> length js = length ops
               \<and> job = OrJob js)"
    by (auto simp: orOperands_turn dest: compiledInTurn_length)
  finally show "toOrJob env args q = (Inr job, args') \<longleftrightarrow>
         (\<exists>js. compiledInTurn (\<lambda>a operand. toPatternExpressionJob env a (MapPattern q operand))
                  args ops js args'
               \<and> length js = length ops
               \<and> job = OrJob js)"
    by (simp add: toPatternExpressionJob_MapPattern)
qed

text \<open>
  The calls for the operands are independent of one another whenever the pattern type of
  the search inputs is literal at the start: each call then leaves the search inputs as
  it found them, so that every operand is compiled from the inputs toAndJob was given.
\<close>

lemma compiledInTurn_literal:
  assumes "compiledInTurn f args xs ys args'"
    and "\<And>a x. PatternType a = SearchTypeLiteral \<Longrightarrow> snd (f a x) = a"
    and "PatternType args = SearchTypeLiteral"
  shows "args' = args \<and> list_all2 (\<lambda>x y. f args x = (Inr y, args)) xs ys"
  using assms
proof (induction rule: compiledInTurn.induct)
  case (turnNil args)
  show ?case by simp
next
  case (turnCons args x y args1 xs ys args2)
  from turnCons.prems have "snd (f args x) = args"
    by simp
  with turnCons.hyps have a1: "args1 = args"
    by simp
  with turnCons show ?case by simp
qed

text \<open>
  C3 fails at \<^verbatim>\<open>"" and foo\<close> under the structural search type. toAndJob returns
  And(Limit 40000 a, Limit 40000 b), the shape the claim states, but the operands are
  not compiled independently: the call for the first operand, whose pattern is empty,
  sets the pattern type of the shared search inputs to literal, and the call for \<^verbatim>\<open>foo\<close>
  then builds no structural search. Compiled by the same call from the search inputs
  that toAndJob was given, \<^verbatim>\<open>foo\<close> has a structural search, and so has the job of
  \<^verbatim>\<open>foo\<close> in \<^verbatim>\<open>foo and ""\<close>, where it is compiled first.
\<close>

theorem toAndJob_shared_inputs:
  "(case toAndJob sampleEnv structuralInputs sampleEmptyAnd of
      (Inr (AndJob [LimitJob k a, LimitJob k' b]), args') \<Rightarrow>
         k = 40000 \<and> k' = 40000 \<and> \<not> list_ex isStructuralSearch (subJobs b) \<and> args' = sampleInputs
    | _ \<Rightarrow> False)
   \<and> (case toPatternExpressionJob sampleEnv structuralInputs
              (MapPattern sampleEmptyAnd (PatternNode ''foo'' False 64)) of
      (Inr b, args') \<Rightarrow> list_ex isStructuralSearch (subJobs b) \<and> args' = structuralInputs
    | _ \<Rightarrow> False)
   \<and> (case toAndJob sampleEnv structuralInputs sampleAndEmpty of
      (Inr (AndJob [LimitJob k b, LimitJob k' a]), args') \<Rightarrow>
         list_ex isStructuralSearch (subJobs b) \<and> args' = sampleInputs
    | _ \<Rightarrow> False)"
  by (simp add: sampleEmptyAnd_def sampleAndEmpty_def structuralInputs_def toAndJob_def
        toPatternExpressionJob_def MapPattern_def isStructuralSearch_def sample_eval)
subsection \<open>The wrappers of ToEvaluateJob and FromExpandedPlan\<close>








lemma Basic_eq: "Pattern q = Some n \<Longrightarrow> \<lparr>Parameters = Parameters q, Pattern = Some n\<rparr> = q"
  by (cases q) simp




text \<open>
  The shapes are exact. For \<^verbatim>\<open>foo and bar\<close> they refuse another limit, an Or node, an
  And node without the operands' trees or with other trees below its limits, and, with
  sub-repository permissions enabled, a Filter node over the And node; they accept the
  And node with a Filter node over each operand's search tree.
\<close>

lemma wrapped_excludes:
  "\<not> wrapped sampleEnv sampleInputs sampleAnd (TimeoutJob 20 (LimitJob (-7) (OrJob [])))"
  "\<not> wrapped sampleEnv sampleInputs sampleAnd (TimeoutJob 20 (LimitJob 30 (OrJob [])))"
  "\<not> wrapped sampleEnv sampleInputs sampleAnd (TimeoutJob 20 (LimitJob 30 (AndJob [])))"
  "\<not> wrapped sampleEnv sampleInputs sampleAnd
       (TimeoutJob 20 (LimitJob 30 (AndJob [LimitJob 40000 NoopJob, LimitJob 40000 NoopJob])))"
  "\<not> wrapped (sampleEnv\<lparr>SubRepoEnabled := True\<rparr>) sampleInputs sampleAnd
       (TimeoutJob 20 (LimitJob 30 (FilterJob (AndJob
          [LimitJob 40000 (PriorityJob (ParallelJob []) (ParallelJob [])),
           LimitJob 40000 (PriorityJob (ParallelJob []) (ParallelJob []))]))))"
  "wrapped (sampleEnv\<lparr>SubRepoEnabled := True\<rparr>) sampleInputs sampleAnd
       (TimeoutJob 20 (LimitJob 30 (AndJob
          [LimitJob 40000 (FilterJob (PriorityJob (ParallelJob []) (ParallelJob []))),
           LimitJob 40000 (FilterJob (PriorityJob (ParallelJob []) (ParallelJob [])))])))"
  by (simp_all add: wrapped_def queryTree_def sampleAnd_def sampleEnv_def sampleInputs_def
        isSearchTree_def isPriorityTree_def Let_def ToNodes_def FieldSelect_def VisitParameter_def)



subsection \<open>The type switch of toPatternExpressionJob\<close>

text \<open>
  The equations of toPatternExpressionJob as the source writes them: on an operator
  with operands it calls toAndJob, toOrJob or ToSearchJob after the kind.
\<close>

lemma toPatternExpressionJob_operator:
  assumes "Pattern q = Some (OperatorNode kind ops a)"
  shows "toPatternExpressionJob env args q =
           (if ops = [] then (Inr NewNoopJob, args)
            else (case kind of
                    And \<Rightarrow> toAndJob env args q
                  | Or \<Rightarrow> toOrJob env args q
                  | Concat \<Rightarrow> ToSearchJob env args (ToParseTree env q)))"
  using assms
  by (cases kind) (simp_all add: toPatternExpressionJob_def toAndJob_def toOrJob_def Basic_eq)

lemma toPatternExpressionJob_pattern:
  assumes "Pattern q = Some (PatternNode v n a)"
  shows "toPatternExpressionJob env args q = ToSearchJob env args (ToParseTree env q)"
  using assms by (simp add: toPatternExpressionJob_def Basic_eq)

lemma toPatternExpressionJob_parameter:
  assumes "Pattern q = Some (ParameterNode p)"
  shows "toPatternExpressionJob env args q = (Inr NewNoopJob, args)"
  using assms by (simp add: toPatternExpressionJob_def)

subsection \<open>Compiling over shared search inputs\<close>

text \<open>
  Under the literal pattern type no call of the compiler changes the search inputs.
\<close>

lemma literal_update: "PatternType a = SearchTypeLiteral \<Longrightarrow> a\<lparr>PatternType := SearchTypeLiteral\<rparr> = a"
  by (cases a) simp

lemma ToSearchJob_literal:
  assumes "PatternType jargs = SearchTypeLiteral"
  shows "snd (ToSearchJob env jargs q) = jargs"
  using assms
  by (simp add: ToSearchJob_def patternFallback_def Let_def literal_update
        split: sum.split prod.split)

lemma andOperands_literal:
  assumes "\<And>n a. n \<in> set ns \<Longrightarrow> PatternType a = SearchTypeLiteral \<Longrightarrow>
             snd (toPatternExpressionNode env a ps n) = a"
    and "PatternType args = SearchTypeLiteral"
  shows "snd (andOperands env args ps ns) = args"
  using assms
proof (induction ns)
  case Nil
  show ?case by simp
next
  case (Cons x xs)
  from Cons.prems have x: "snd (toPatternExpressionNode env args ps x) = args"
    by simp
  from Cons have xs: "snd (andOperands env args ps xs) = args"
    by simp
  obtain r where r: "toPatternExpressionNode env args ps x = (r, args)"
    using x by (cases "toPatternExpressionNode env args ps x") simp
  obtain rs where rs: "andOperands env args ps xs = (rs, args)"
    using xs by (cases "andOperands env args ps xs") simp
  show ?case
    by (simp add: r rs split: sum.split)
qed

lemma orOperands_literal:
  assumes "\<And>n a. n \<in> set ns \<Longrightarrow> PatternType a = SearchTypeLiteral \<Longrightarrow>
             snd (toPatternExpressionNode env a ps n) = a"
    and "PatternType args = SearchTypeLiteral"
  shows "snd (orOperands env args ps ns) = args"
  using assms
proof (induction ns)
  case Nil
  show ?case by simp
next
  case (Cons x xs)
  from Cons.prems have x: "snd (toPatternExpressionNode env args ps x) = args"
    by simp
  from Cons have xs: "snd (orOperands env args ps xs) = args"
    by simp
  obtain r where r: "toPatternExpressionNode env args ps x = (r, args)"
    using x by (cases "toPatternExpressionNode env args ps x") simp
  obtain rs where rs: "orOperands env args ps xs = (rs, args)"
    using xs by (cases "orOperands env args ps xs") simp
  show ?case
    by (simp add: r rs split: sum.split)
qed

lemma toPatternExpressionNode_literal:
  "PatternType args = SearchTypeLiteral \<Longrightarrow> snd (toPatternExpressionNode env args ps n) = args"
proof (induction n arbitrary: args)
  case (PatternNode v neg a)
  then show ?case by (simp add: ToSearchJob_literal)
next
  case (ParameterNode p)
  show ?case by simp
next
  case (OperatorNode kind ops a)
  have ands: "snd (andOperands env args ps ops) = args"
    by (rule andOperands_literal) (auto intro: OperatorNode)
  have ors: "snd (orOperands env args ps ops) = args"
    by (rule orOperands_literal) (auto intro: OperatorNode)
  obtain ra where ra: "andOperands env args ps ops = (ra, args)"
    using ands by (cases "andOperands env args ps ops") simp
  obtain ro where ro: "orOperands env args ps ops = (ro, args)"
    using ors by (cases "orOperands env args ps ops") simp
  from OperatorNode.prems show ?case
    by (cases kind) (simp_all add: ra ro ToSearchJob_literal split: sum.split)
qed

lemma ToEvaluateJob_literal:
  assumes "PatternType args = SearchTypeLiteral"
  shows "snd (ToEvaluateJob env args q) = args"
proof -
  let ?r = "if Pattern q = None then ToSearchJob env args (ToNodes (Parameters q))
            else toPatternExpressionJob env args q"
  have "snd ?r = args"
    using assms
    by (auto simp: ToSearchJob_literal toPatternExpressionJob_def toPatternExpressionNode_literal)
  then obtain r where "?r = (r, args)"
    by (cases ?r) simp
  then show ?thesis
    by (simp add: ToEvaluateJob_def Let_def split: sum.split)
qed

lemma planChildren_literal:
  "PatternType args = SearchTypeLiteral \<Longrightarrow> snd (planChildren env args plan) = args"
proof (induction plan)
  case Nil
  show ?case by simp
next
  case (Cons q plan)
  from Cons.prems have "snd (ToEvaluateJob env args q) = args"
    by (rule ToEvaluateJob_literal)
  then obtain r where r: "ToEvaluateJob env args q = (r, args)"
    by (cases "ToEvaluateJob env args q") simp
  from Cons obtain rs where rs: "planChildren env args plan = (rs, args)"
    by (cases "planChildren env args plan") simp
  show ?case
    by (simp add: r rs split: sum.split)
qed

lemma FromExpandedPlan_literal:
  assumes "PatternType args = SearchTypeLiteral"
  shows "snd (FromExpandedPlan env args plan) = args"
proof -
  have "snd (planChildren env args plan) = args"
    by (rule planChildren_literal [OF assms])
  then obtain rs where "planChildren env args plan = (rs, args)"
    by (cases "planChildren env args plan") simp
  then show ?thesis
    by (simp add: FromExpandedPlan_def split: sum.split)
qed

text \<open>
  Under the literal pattern type the operands of an And operator are hence compiled
  independently of one another: each by its own call of toPatternExpressionJob from the
  search inputs toAndJob was given, which every call leaves as they were.
\<close>

lemma toAndJob_literal:
  assumes lit: "PatternType args = SearchTypeLiteral"
    and q: "Pattern q = Some (OperatorNode And ops ann)"
    and run: "toAndJob env args q = (Inr job, args')"
  shows "\<exists>js. job = AndJob (map (LimitJob 40000) js) \<and> args' = args
           \<and> list_all2 (\<lambda>operand j. toPatternExpressionJob env args (MapPattern q operand) = (Inr j, args))
                 ops js"
proof -
  let ?f = "\<lambda>a operand. toPatternExpressionJob env a (MapPattern q operand)"
  from toAndJob_toOrJob_shape [of q ops ann env args job args'] q run obtain js where
    turn: "compiledInTurn ?f args ops js args'"
    and job: "job = AndJob (map (LimitJob 40000) js)"
    by blast
  have "args' = args \<and> list_all2 (\<lambda>x y. ?f args x = (Inr y, args)) ops js"
    using turn
  proof (rule compiledInTurn_literal)
    fix a :: SearchInputs and x :: Node
    assume "PatternType a = SearchTypeLiteral"
    then show "snd (?f a x) = a"
      by (simp add: toPatternExpressionJob_MapPattern toPatternExpressionNode_literal)
  next
    show "PatternType args = SearchTypeLiteral" by (rule lit)
  qed
  with job show ?thesis by blast
qed

text \<open>
  What a call of the compiler may write: it leaves the search inputs as they were, or
  with the pattern type set to literal and every other field as it was.
\<close>

lemma ToSearchJob_writes:
  "snd (ToSearchJob env a q) = a \<or> snd (ToSearchJob env a q) = a\<lparr>PatternType := SearchTypeLiteral\<rparr>"
  by (simp add: ToSearchJob_def patternFallback_def Let_def split: sum.split prod.split)

lemma writes_trans:
  assumes "a1 = a \<or> a1 = a\<lparr>PatternType := SearchTypeLiteral\<rparr>"
    and "a2 = a1 \<or> a2 = a1\<lparr>PatternType := SearchTypeLiteral\<rparr>"
  shows "a2 = a \<or> a2 = a\<lparr>PatternType := SearchTypeLiteral\<rparr>"
  using assms by auto

lemma andOperands_writes:
  assumes "\<And>n a. n \<in> set ns \<Longrightarrow>
             snd (toPatternExpressionNode env a ps n) = a
             \<or> snd (toPatternExpressionNode env a ps n) = a\<lparr>PatternType := SearchTypeLiteral\<rparr>"
  shows "snd (andOperands env args ps ns) = args
         \<or> snd (andOperands env args ps ns) = args\<lparr>PatternType := SearchTypeLiteral\<rparr>"
  using assms
proof (induction ns arbitrary: args)
  case Nil
  show ?case by simp
next
  case (Cons x xs)
  obtain r a1 where r: "toPatternExpressionNode env args ps x = (r, a1)"
    by (cases "toPatternExpressionNode env args ps x")
  obtain rs a2 where rs: "andOperands env a1 ps xs = (rs, a2)"
    by (cases "andOperands env a1 ps xs")
  from Cons.prems [of x args] r have s1: "a1 = args \<or> a1 = args\<lparr>PatternType := SearchTypeLiteral\<rparr>"
    by simp
  from Cons.IH [of a1] Cons.prems rs have s2: "a2 = a1 \<or> a2 = a1\<lparr>PatternType := SearchTypeLiteral\<rparr>"
    by simp
  have s3: "a2 = args \<or> a2 = args\<lparr>PatternType := SearchTypeLiteral\<rparr>"
    by (rule writes_trans [OF s1 s2])
  show ?case
  proof (cases r)
    case (Inl err)
    with r s1 show ?thesis by simp
  next
    case (Inr operand)
    with r rs s3 show ?thesis by (cases rs) simp_all
  qed
qed

lemma orOperands_writes:
  assumes "\<And>n a. n \<in> set ns \<Longrightarrow>
             snd (toPatternExpressionNode env a ps n) = a
             \<or> snd (toPatternExpressionNode env a ps n) = a\<lparr>PatternType := SearchTypeLiteral\<rparr>"
  shows "snd (orOperands env args ps ns) = args
         \<or> snd (orOperands env args ps ns) = args\<lparr>PatternType := SearchTypeLiteral\<rparr>"
  using assms
proof (induction ns arbitrary: args)
  case Nil
  show ?case by simp
next
  case (Cons x xs)
  obtain r a1 where r: "toPatternExpressionNode env args ps x = (r, a1)"
    by (cases "toPatternExpressionNode env args ps x")
  obtain rs a2 where rs: "orOperands env a1 ps xs = (rs, a2)"
    by (cases "orOperands env a1 ps xs")
  from Cons.prems [of x args] r have s1: "a1 = args \<or> a1 = args\<lparr>PatternType := SearchTypeLiteral\<rparr>"
    by simp
  from Cons.IH [of a1] Cons.prems rs have s2: "a2 = a1 \<or> a2 = a1\<lparr>PatternType := SearchTypeLiteral\<rparr>"
    by simp
  have s3: "a2 = args \<or> a2 = args\<lparr>PatternType := SearchTypeLiteral\<rparr>"
    by (rule writes_trans [OF s1 s2])
  show ?case
  proof (cases r)
    case (Inl err)
    with r s1 show ?thesis by simp
  next
    case (Inr operand)
    with r rs s3 show ?thesis by (cases rs) simp_all
  qed
qed

lemma toPatternExpressionNode_writes:
  "snd (toPatternExpressionNode env args ps n) = args
   \<or> snd (toPatternExpressionNode env args ps n) = args\<lparr>PatternType := SearchTypeLiteral\<rparr>"
proof (induction n arbitrary: args)
  case (PatternNode v neg a)
  show ?case by (simp add: ToSearchJob_writes)
next
  case (ParameterNode p)
  show ?case by simp
next
  case (OperatorNode kind ops a)
  have ands: "snd (andOperands env args ps ops) = args
              \<or> snd (andOperands env args ps ops) = args\<lparr>PatternType := SearchTypeLiteral\<rparr>"
    by (rule andOperands_writes) (rule OperatorNode)
  have ors: "snd (orOperands env args ps ops) = args
             \<or> snd (orOperands env args ps ops) = args\<lparr>PatternType := SearchTypeLiteral\<rparr>"
    by (rule orOperands_writes) (rule OperatorNode)
  obtain ra aa where ra: "andOperands env args ps ops = (ra, aa)"
    by (cases "andOperands env args ps ops")
  obtain ro ao where ro: "orOperands env args ps ops = (ro, ao)"
    by (cases "orOperands env args ps ops")
  show ?case
  proof (cases kind)
    case And
    with ands ra show ?thesis by (cases ra) auto
  next
    case Or
    with ors ro show ?thesis by (cases ro) auto
  next
    case Concat
    then show ?thesis by (simp add: ToSearchJob_writes)
  qed
qed

lemma ToEvaluateJob_writes:
  "snd (ToEvaluateJob env args q) = args
   \<or> snd (ToEvaluateJob env args q) = args\<lparr>PatternType := SearchTypeLiteral\<rparr>"
proof -
  let ?r = "if Pattern q = None then ToSearchJob env args (ToNodes (Parameters q))
            else toPatternExpressionJob env args q"
  have w: "snd ?r = args \<or> snd ?r = args\<lparr>PatternType := SearchTypeLiteral\<rparr>"
  proof (cases "Pattern q")
    case None
    then show ?thesis by (simp add: ToSearchJob_writes)
  next
    case (Some n)
    with toPatternExpressionNode_writes [of env args "Parameters q" n] show ?thesis
      by (simp add: toPatternExpressionJob_def)
  qed
  obtain r a1 where r: "?r = (r, a1)"
    by (cases ?r)
  with w have "a1 = args \<or> a1 = args\<lparr>PatternType := SearchTypeLiteral\<rparr>"
    by simp
  moreover from r have "snd (ToEvaluateJob env args q) = a1"
    by (simp add: ToEvaluateJob_def Let_def split: sum.split)
  ultimately show ?thesis by simp
qed

lemma planChildren_writes:
  "snd (planChildren env args plan) = args
   \<or> snd (planChildren env args plan) = args\<lparr>PatternType := SearchTypeLiteral\<rparr>"
proof (induction plan arbitrary: args)
  case Nil
  show ?case by simp
next
  case (Cons q plan)
  obtain r a1 where r: "ToEvaluateJob env args q = (r, a1)"
    by (cases "ToEvaluateJob env args q")
  obtain rs a2 where rs: "planChildren env a1 plan = (rs, a2)"
    by (cases "planChildren env a1 plan")
  from ToEvaluateJob_writes [of env args q] r
  have s1: "a1 = args \<or> a1 = args\<lparr>PatternType := SearchTypeLiteral\<rparr>"
    by simp
  from Cons.IH [of a1] rs have s2: "a2 = a1 \<or> a2 = a1\<lparr>PatternType := SearchTypeLiteral\<rparr>"
    by simp
  have s3: "a2 = args \<or> a2 = args\<lparr>PatternType := SearchTypeLiteral\<rparr>"
    by (rule writes_trans [OF s1 s2])
  show ?case
  proof (cases r)
    case (Inl err)
    with r s1 show ?thesis by simp
  next
    case (Inr child)
    with r rs s3 show ?thesis by (cases rs) simp_all
  qed
qed

lemma FromExpandedPlan_writes:
  "snd (FromExpandedPlan env args plan) = args
   \<or> snd (FromExpandedPlan env args plan) = args\<lparr>PatternType := SearchTypeLiteral\<rparr>"
proof -
  obtain rs a1 where rs: "planChildren env args plan = (rs, a1)"
    by (cases "planChildren env args plan")
  from planChildren_writes [of env args plan] rs
  have "a1 = args \<or> a1 = args\<lparr>PatternType := SearchTypeLiteral\<rparr>"
    by simp
  moreover from rs have "snd (FromExpandedPlan env args plan) = a1"
    by (simp add: FromExpandedPlan_def split: sum.split)
  ultimately show ?thesis by simp
qed

text \<open>
  Two runs of FromExpandedPlan over one Args, whose search inputs both runs reach
  through the same pointer: the second run starts from the search inputs as the first
  left them. Under the literal pattern type the second run returns what the first
  returned. Under any pattern type the third run returns what the second returned:
  whatever the first run wrote, it wrote the literal pattern type, and no later run
  writes again.
\<close>

lemma FromExpandedPlan_twice_literal:
  assumes "PatternType args = SearchTypeLiteral"
  shows "FromExpandedPlan env (snd (FromExpandedPlan env args plan)) plan
           = FromExpandedPlan env args plan"
  using assms by (simp add: FromExpandedPlan_literal)

lemma FromExpandedPlan_settles:
  assumes "snd (FromExpandedPlan env args plan) \<noteq> args"
  shows "FromExpandedPlan env
           (snd (FromExpandedPlan env (snd (FromExpandedPlan env args plan)) plan)) plan
         = FromExpandedPlan env (snd (FromExpandedPlan env args plan)) plan"
proof -
  from FromExpandedPlan_writes [of env args plan] assms
  have "snd (FromExpandedPlan env args plan) = args\<lparr>PatternType := SearchTypeLiteral\<rparr>"
    by simp
  then have "PatternType (snd (FromExpandedPlan env args plan)) = SearchTypeLiteral"
    by simp
  then show ?thesis
    by (rule FromExpandedPlan_twice_literal)
qed

text \<open>
  C8 fails at the plan of \<^verbatim>\<open>foo or repo:bar\<close> under the structural search type, compiled
  twice over one Args. The first run compiles \<^verbatim>\<open>foo\<close> into a tree with a structural
  search among its required jobs, and then, at \<^verbatim>\<open>repo:bar\<close>, whose pattern is empty,
  sets the pattern type of the shared search inputs to literal: it leaves them as the
  sample inputs under the literal type. The second run, over the same plan and the same
  Args, compiles \<^verbatim>\<open>foo\<close> under the literal pattern type: its tree has no structural
  search, and differs from the tree of the first run.
\<close>

theorem FromExpandedPlan_shared_inputs:
  "snd (FromExpandedPlan sampleEnv structuralInputs samplePlan) = sampleInputs
   \<and> structuralInputs \<noteq> sampleInputs
   \<and> (case fst (FromExpandedPlan sampleEnv structuralInputs samplePlan) of
      Inr job \<Rightarrow> list_ex isStructuralSearch (subJobs job)
    | Inl err \<Rightarrow> False)
   \<and> (case fst (FromExpandedPlan sampleEnv
                  (snd (FromExpandedPlan sampleEnv structuralInputs samplePlan)) samplePlan) of
      Inr job \<Rightarrow> \<not> list_ex isStructuralSearch (subJobs job)
    | Inl err \<Rightarrow> False)
   \<and> fst (FromExpandedPlan sampleEnv
            (snd (FromExpandedPlan sampleEnv structuralInputs samplePlan)) samplePlan)
       \<noteq> fst (FromExpandedPlan sampleEnv structuralInputs samplePlan)"
  by (simp add: samplePlan_def structuralInputs_def isStructuralSearch_def sample_eval)
subsection \<open>The structural flag beside the regex flag\<close>

lemma validateParams_regexp:
  "validateParams (r\<lparr>reqPatternInfo := (reqPatternInfo r)\<lparr>ppIsRegExp := b\<rparr>\<rparr>) = validateParams r"
  by (simp add: validateParams_def)

lemma searchedPath_regexp: "searchedPath e (p\<lparr>ppIsRegExp := b\<rparr>) = searchedPath e p"
  by (simp add: searchedPath_def Let_def cong: if_cong)

lemma searchedPath_engine:
  "searchedPath (e\<lparr>regexpCompile := c, quoteMeta := qm\<rparr>) p = searchedPath e p"
  by (simp add: searchedPath_def Let_def cong: if_cong)

lemma structuralSearch_engine:
  "structuralSearch (e\<lparr>regexpCompile := c, quoteMeta := qm\<rparr>) t files = structuralSearch e t files"
  by (induction files) auto

lemma searcherSearch_structural:
  assumes "ppIsStructuralPat (reqPatternInfo r)"
  shows "searcherSearch e files r =
           bindE (validateParams r) (\<lambda>u.
           bindE (searchedPath e (reqPatternInfo r)) (\<lambda>searched.
             structuralSearch e (ppPattern (reqPatternInfo r))
               (filter (\<lambda>(path, body). searched path) files)))"
  using assms by (simp add: searcherSearch_def interpretationOf_def Let_def)

text \<open>
  The requests of \<^verbatim>\<open>TestSearch_badrequest\<close> that fail whatever the engines do: no
  repository, no commit, a commit that is not absolute, and a structural search with a
  negated pattern.
\<close>

lemma searcherSearch_badrequest:
  "\<not> isOK (searcherSearch e files (r\<lparr>reqRepo := []\<rparr>))"
  "\<not> isOK (searcherSearch e files (r\<lparr>reqCommit := []\<rparr>))"
  "\<not> isOK (searcherSearch e files (r\<lparr>reqCommit := ''HEAD''\<rparr>))"
  "ppIsNegated (reqPatternInfo r) \<Longrightarrow> ppIsStructuralPat (reqPatternInfo r) \<Longrightarrow>
     \<not> isOK (searcherSearch e files r)"
  by (simp_all add: searcherSearch_def validateParams_def isAbsoluteRevision_def bindE_def isOK_def
        Let_def)

text \<open>
  Rows of \<^verbatim>\<open>TestSearch\<close> with a literal pattern, on the literal sample engines: the
  pattern on path and content, on the content only, on the path only, and negated.
\<close>

lemma searcherSearch_rows:
  "searcherSearch literalEngines testFiles
     (testRequest (emptyPatternInfo\<lparr>ppPattern := ''abc'', ppPatternMatchesPath := True,
        ppPatternMatchesContent := True\<rparr>))
     = Inr [(''abc.txt'', []), (''symlink'', [1])]"
  "searcherSearch literalEngines testFiles
     (testRequest (emptyPatternInfo\<lparr>ppPattern := ''abc'', ppPatternMatchesContent := True\<rparr>))
     = Inr [(''symlink'', [1])]"
  "searcherSearch literalEngines testFiles
     (testRequest (emptyPatternInfo\<lparr>ppPattern := ''abc'', ppPatternMatchesPath := True\<rparr>))
     = Inr [(''abc.txt'', [])]"
  "searcherSearch literalEngines testFiles
     (testRequest (emptyPatternInfo\<lparr>ppPattern := ''world'', ppIsCaseSensitive := True\<rparr>))
     = Inr [(''README.md'', [3]), (''main.go'', [6])]"
  "searcherSearch literalEngines testFiles
     (testRequest (emptyPatternInfo\<lparr>ppPattern := ''World'', ppIsCaseSensitive := True,
        ppIsNegated := True\<rparr>))
     = Inr [(''abc.txt'', []), (''file++.plus'', []), (''main.go'', []), (''symlink'', [])]"
  by (simp_all add: searcherSearch_def validateParams_def isAbsoluteRevision_def bindE_def
        searchedPath_def interpretationOf_def regexpMatcher_def regexSearch_def Let_def
        literalEngines_def sampleEngines_def testFiles_def testRequest_def emptyPatternInfo_def
        containingLines_def)

text \<open>
  C7, on the matcher as the spec describes it. A request whose structural flag is set
  is searched under the structural interpretation, whatever its regex flag: the search
  gives what it gives with the regex flag set or cleared, and what it gives with any
  other regular expression engine, which it does not consult for the pattern. In the
  scenario of the test (pattern \<^verbatim>\<open>filename contains regex metachars\<close>, include pattern
  \<^verbatim>\<open>file++.plus\<close>, both flags set, over the files of the test) the search gives line 1
  of \<^verbatim>\<open>file++.plus\<close> and nothing else, and no error, for all engines whose structural
  matcher finds the template in line 1 of that content and whose glob \<^verbatim>\<open>file++.plus\<close>
  matches, of the paths of the test, that path only; the regular expression engine may
  reject every expression.
\<close>

theorem structural_precedence:
  "(ppIsStructuralPat (reqPatternInfo r) \<longrightarrow>
      interpretationOf (reqPatternInfo r) = AsStructural
      \<and> searcherSearch e files (r\<lparr>reqPatternInfo := (reqPatternInfo r)\<lparr>ppIsRegExp := b\<rparr>\<rparr>)
          = searcherSearch e files r
      \<and> searcherSearch (e\<lparr>regexpCompile := c, quoteMeta := qm\<rparr>) files r = searcherSearch e files r)
   \<and> (structuralMatch e ''filename contains regex metachars'' ''filename contains regex metachars''
         = Inr [1]
       \<and> pathCompile e False False ''file++.plus'' = Inr m
       \<and> (\<forall>path \<in> set (map fst testFiles). m path = (path = ''file++.plus'')) \<longrightarrow>
      searcherSearch e testFiles scenarioRequest = Inr [(''file++.plus'', [1])])"
proof (intro conjI impI)
  assume s: "ppIsStructuralPat (reqPatternInfo r)"
  then show "interpretationOf (reqPatternInfo r) = AsStructural"
    by (simp add: interpretationOf_def)
  from s have s': "ppIsStructuralPat (reqPatternInfo (r\<lparr>reqPatternInfo := (reqPatternInfo r)\<lparr>ppIsRegExp := b\<rparr>\<rparr>))"
    by simp
  show "searcherSearch e files (r\<lparr>reqPatternInfo := (reqPatternInfo r)\<lparr>ppIsRegExp := b\<rparr>\<rparr>)
          = searcherSearch e files r"
    unfolding searcherSearch_structural [OF s] searcherSearch_structural [OF s']
    by (simp add: validateParams_regexp searchedPath_regexp)
  show "searcherSearch (e\<lparr>regexpCompile := c, quoteMeta := qm\<rparr>) files r = searcherSearch e files r"
    unfolding searcherSearch_structural [OF s]
    by (simp add: searchedPath_engine structuralSearch_engine)
next
  assume h: "structuralMatch e ''filename contains regex metachars'' ''filename contains regex metachars''
               = Inr [1]
             \<and> pathCompile e False False ''file++.plus'' = Inr m
             \<and> (\<forall>path \<in> set (map fst testFiles). m path = (path = ''file++.plus''))"
  have s: "ppIsStructuralPat (reqPatternInfo scenarioRequest)"
    by (simp add: scenarioRequest_def testRequest_def)
  have v: "validateParams scenarioRequest = Inr ()"
    by (simp add: validateParams_def scenarioRequest_def testRequest_def emptyPatternInfo_def
          isAbsoluteRevision_def)
  have p: "searchedPath e (reqPatternInfo scenarioRequest) = Inr (\<lambda>path. list_all (\<lambda>m. m path) [m] \<and> \<not> False)"
    using h
    by (simp add: searchedPath_def scenarioRequest_def testRequest_def emptyPatternInfo_def
          bindE_def Let_def)
  have f: "filter (\<lambda>(path, body). m path) testFiles
             = [(''file++.plus'', ''filename contains regex metachars'')]"
    using h by (simp add: testFiles_def)
  have t: "ppPattern (reqPatternInfo scenarioRequest) = ''filename contains regex metachars''"
    by (simp add: scenarioRequest_def testRequest_def)
  show "searcherSearch e testFiles scenarioRequest = Inr [(''file++.plus'', [1])]"
    unfolding searcherSearch_structural [OF s] v p t
    using h by (simp add: bindE_def f)
qed

theorem structural_precedence_witness:
  "ppIsStructuralPat (reqPatternInfo scenarioRequest) \<and> ppIsRegExp (reqPatternInfo scenarioRequest)
   \<and> \<not> isOK (regexpMatcher sampleEngines (reqPatternInfo scenarioRequest))
   \<and> searcherSearch sampleEngines testFiles scenarioRequest = Inr [(''file++.plus'', [1])]
   \<and> searcherSearch sampleEngines testFiles
        (scenarioRequest\<lparr>reqPatternInfo := (reqPatternInfo scenarioRequest)\<lparr>ppIsRegExp := False\<rparr>\<rparr>)
       = Inr [(''file++.plus'', [1])]"
proof -
  let ?m = "\<lambda>path. path = ''file++.plus''"
  have s: "ppIsStructuralPat (reqPatternInfo scenarioRequest)"
    and r: "ppIsRegExp (reqPatternInfo scenarioRequest)"
    by (simp_all add: scenarioRequest_def testRequest_def)
  have x: "\<not> isOK (regexpMatcher sampleEngines (reqPatternInfo scenarioRequest))"
    by (simp add: regexpMatcher_def sampleEngines_def isOK_def)
  have h1: "structuralMatch sampleEngines ''filename contains regex metachars''
              ''filename contains regex metachars'' = Inr [1]"
    by (simp add: sampleEngines_def containingLines_def)
  have h2: "pathCompile sampleEngines False False ''file++.plus'' = Inr ?m"
    by (simp add: sampleEngines_def)
  have h3: "\<forall>path \<in> set (map fst testFiles). ?m path = (path = ''file++.plus'')"
    by simp
  note inst = structural_precedence [where r = scenarioRequest and e = sampleEngines
      and files = testFiles and b = False and c = "regexpCompile sampleEngines"
      and qm = "quoteMeta sampleEngines" and m = ?m]
  from conjunct2 [OF inst] h1 h2 h3
  have a: "searcherSearch sampleEngines testFiles scenarioRequest = Inr [(''file++.plus'', [1])]"
    by blast
  from conjunct1 [OF inst] s
  have "searcherSearch sampleEngines testFiles
          (scenarioRequest\<lparr>reqPatternInfo := (reqPatternInfo scenarioRequest)\<lparr>ppIsRegExp := False\<rparr>\<rparr>)
        = searcherSearch sampleEngines testFiles scenarioRequest"
    by blast
  with a s r x show ?thesis by simp
qed
end
